theory Spec2Isabelle
  imports Main "HOL-Library.AList"
begin

section \<open>JSON values and the Python operations applied to them\<close>

text \<open>
  The module \<^verbatim>\<open>youtube2zim/youtube.py\<close> works on the parsed JSON of the YouTube API.
  An object is an association list, read with \<open>map_of\<close> (first binding of a key).
  JSON null is left out of the value type: Python's \<^verbatim>\<open>None\<close> is the \<open>None\<close> of an
  option wherever the code can meet it (a missing cache file, \<^verbatim>\<open>dict.get\<close> on a missing
  key, the initial page token).
\<close>

datatype json =
    JBool bool
  | JNum int
  | JStr string
  | JArr "json list"
  | JObj "(string \<times> json) list"

text \<open>
  Every exception the module can raise is a value. \<open>Unmodelled\<close> marks where the
  model stops short of Python: an identifier taken from a response is not a string,
  and Python would go on and format or hash the value it found (the API's identifiers
  are strings).
\<close>

datatype error =
    ConnectionError
  | HTTPError nat
  | JSONDecodeError
  | KeyError string
  | IndexError
  | TypeError
  | AttributeError
  | NotImplementedError string
  | Exception string
  | FileNotFoundError
  | FileExistsError
  | NotADirectoryError
  | DownloadFailed
  | ResizeFailed
  | Unmodelled

text \<open>Truth value of a Python object, as \<^verbatim>\<open>if not page_token\<close> and \<^verbatim>\<open>if not thumbnail\<close> use it.\<close>

fun truthy :: "json \<Rightarrow> bool" where
  "truthy (JBool b) = b"
| "truthy (JNum n) = (n \<noteq> 0)"
| "truthy (JStr s) = (s \<noteq> [])"
| "truthy (JArr xs) = (xs \<noteq> [])"
| "truthy (JObj kvs) = (kvs \<noteq> [])"

fun py_not :: "json option \<Rightarrow> bool" where
  "py_not None = True"
| "py_not (Some v) = (\<not> truthy v)"

text \<open>\<^verbatim>\<open>obj[key]\<close> with a string key.\<close>

fun py_getitem :: "json \<Rightarrow> string \<Rightarrow> error + json" where
  "py_getitem (JObj kvs) k = (case map_of kvs k of None \<Rightarrow> Inl (KeyError k) | Some v \<Rightarrow> Inr v)"
| "py_getitem (JBool b) k = Inl TypeError"
| "py_getitem (JNum n) k = Inl TypeError"
| "py_getitem (JStr s) k = Inl TypeError"
| "py_getitem (JArr xs) k = Inl TypeError"

text \<open>\<^verbatim>\<open>obj[0]\<close>: the first element of a list or a string; no object has the key 0.\<close>

fun py_getitem0 :: "json \<Rightarrow> error + json" where
  "py_getitem0 (JArr []) = Inl IndexError"
| "py_getitem0 (JArr (x # xs)) = Inr x"
| "py_getitem0 (JStr []) = Inl IndexError"
| "py_getitem0 (JStr (c # cs)) = Inr (JStr [c])"
| "py_getitem0 (JObj kvs) = Inl (KeyError ''0'')"
| "py_getitem0 (JBool b) = Inl TypeError"
| "py_getitem0 (JNum n) = Inl TypeError"

text \<open>\<^verbatim>\<open>obj.get(key)\<close>: only a dict has the method.\<close>

fun py_get :: "json \<Rightarrow> string \<Rightarrow> error + json option" where
  "py_get (JObj kvs) k = Inr (map_of kvs k)"
| "py_get (JBool b) k = Inl AttributeError"
| "py_get (JNum n) k = Inl AttributeError"
| "py_get (JStr s) k = Inl AttributeError"
| "py_get (JArr xs) k = Inl AttributeError"


text \<open>
  The elements Python iterates over (\<^verbatim>\<open>items += obj\<close>, \<^verbatim>\<open>for item in obj\<close>): the
  elements of a list, the characters of a string, the keys of a dict.
\<close>

fun py_iter :: "json \<Rightarrow> error + json list" where
  "py_iter (JArr xs) = Inr xs"
| "py_iter (JStr s) = Inr (map (\<lambda>c. JStr [c]) s)"
| "py_iter (JObj kvs) = Inr (map JStr (remdups (map fst kvs)))"
| "py_iter (JBool b) = Inl TypeError"
| "py_iter (JNum n) = Inl TypeError"

section \<open>The world outside the module\<close>

record request =
  rq_url :: string
  rq_params :: "(string \<times> json option) list"

record response =
  status_code :: nat
  json_body :: "json option"

text \<open>The file tree that \<^verbatim>\<open>save_channel_branding\<close> writes under \<^verbatim>\<open>channels_dir\<close>.\<close>

datatype node = File string | Dir "(string \<times> node) list"

datatype action = Download json "string list" | Resize "string list" nat nat

text \<open>
  \<open>remote\<close> is the API server: its answer to a request may depend on the requests
  sent before (\<open>None\<close>: the transport failed and \<^verbatim>\<open>requests.get\<close> raises).
  \<open>sent\<close> is the log of requests issued. \<open>cache\<close> holds the JSON files under
  \<^verbatim>\<open>YOUTUBE.cache_dir\<close>, by key. \<open>stream\<close> and \<open>resize\<close> stand for
  \<^verbatim>\<open>zimscraperlib\<close>'s \<^verbatim>\<open>stream_file\<close> and \<^verbatim>\<open>resize_image\<close>, \<open>slug_of\<close> for
  \<^verbatim>\<open>youtube2zim.utils.get_slug\<close>, none of them part of this module; \<open>str_hash\<close> fixes the
  order in which this process iterates over a set of strings. Log lines are not modelled.
\<close>

record world =
  api_key :: string
  cache :: "string \<rightharpoonup> json"
  remote :: "request list \<Rightarrow> request \<Rightarrow> response option"
  sent :: "request list"
  disk :: node
  stream :: "json \<Rightarrow> string option"
  resize :: "string \<Rightarrow> nat \<Rightarrow> nat \<Rightarrow> string option"
  assets :: "action list"
  slug_of :: "json \<Rightarrow> error + string"
  str_hash :: "string \<Rightarrow> nat"

text \<open>
  Modelled from the spec: \<^verbatim>\<open>load_json\<close> and \<^verbatim>\<open>save_json\<close> of \<^verbatim>\<open>youtube2zim.utils\<close> are
  not among the sources. The spec's Cache Store: \<^verbatim>\<open>get(key) -> blob | absent\<close>, where
  absence is not an error, and \<^verbatim>\<open>put(key, blob)\<close>, which always overwrites.
\<close>

definition load_json :: "world \<Rightarrow> string \<Rightarrow> json option" where
  "load_json w fname = cache w fname"

definition save_json :: "string \<Rightarrow> json \<Rightarrow> world \<Rightarrow> world" where
  "save_json fname v w = w\<lparr>cache := (cache w)(fname \<mapsto> v)\<rparr>"

section \<open>HTTP\<close>

definition YOUTUBE_API :: string where
  "YOUTUBE_API = ''https://www.googleapis.com/youtube/v3''"

definition PLAYLIST_API :: string where
  "PLAYLIST_API = YOUTUBE_API @ ''/playlists''"

definition PLAYLIST_ITEMS_API :: string where
  "PLAYLIST_ITEMS_API = YOUTUBE_API @ ''/playlistItems''"

definition CHANNELS_API :: string where
  "CHANNELS_API = YOUTUBE_API @ ''/channels''"

definition VIDEOS_API :: string where
  "VIDEOS_API = YOUTUBE_API @ ''/videos''"

definition MAX_VIDEOS_PER_REQUEST :: nat where
  "MAX_VIDEOS_PER_REQUEST = 50"

definition RESULTS_PER_PAGE :: int where
  "RESULTS_PER_PAGE = 50"

text \<open>\<^verbatim>\<open>requests.get(url, params=..., timeout=REQUEST_TIMEOUT)\<close>; the request is logged.\<close>

definition requests_get :: "request \<Rightarrow> world \<Rightarrow> (error + response) \<times> world" where
  "requests_get rq w =
     (case remote w (sent w) rq of None \<Rightarrow> Inl ConnectionError | Some r \<Rightarrow> Inr r,
      w\<lparr>sent := sent w @ [rq]\<rparr>)"

text \<open>\<^verbatim>\<open>req.raise_for_status()\<close>: a 4xx or 5xx status raises.\<close>

definition raise_for_status :: "response \<Rightarrow> error + unit" where
  "raise_for_status r =
     (if 400 \<le> status_code r \<and> status_code r < 600 then Inl (HTTPError (status_code r))
      else Inr ())"

text \<open>\<^verbatim>\<open>req.json()\<close>.\<close>

definition response_json :: "response \<Rightarrow> error + json" where
  "response_json r = (case json_body r of None \<Rightarrow> Inl JSONDecodeError | Some b \<Rightarrow> Inr b)"

text \<open>
  The three steps every query of the module makes in this order:
  \<^verbatim>\<open>req = requests.get(...); req.raise_for_status(); req.json()\<close>.
\<close>

definition get_json :: "request \<Rightarrow> world \<Rightarrow> (error + json) \<times> world" where
  "get_json rq w =
     (case requests_get rq w of
        (Inl e, w1) \<Rightarrow> (Inl e, w1)
      | (Inr req, w1) \<Rightarrow>
          (case raise_for_status req of
             Inl e \<Rightarrow> (Inl e, w1)
           | Inr _ \<Rightarrow> (response_json req, w1)))"

section \<open>Resource accessors\<close>

definition channel_request :: "string \<Rightarrow> bool \<Rightarrow> string \<Rightarrow> request" where
  "channel_request channel_id for_username key =
     \<lparr>rq_url = CHANNELS_API,
      rq_params = [(if for_username then ''forUsername'' else ''id'', Some (JStr channel_id)),
                   (''part'', Some (JStr ''brandingSettings,snippet,contentDetails'')),
                   (''key'', Some (JStr key))]\<rparr>"

definition get_channel_json :: "string \<Rightarrow> bool \<Rightarrow> world \<Rightarrow> (error + json) \<times> world" where
  "get_channel_json channel_id for_username w =
     (let fname = ''channel_'' @ channel_id in
      case load_json w fname of
        Some channel_json \<Rightarrow> (Inr channel_json, w)
      | None \<Rightarrow>
          (case get_json (channel_request channel_id for_username (api_key w)) w of
             (Inl e, w1) \<Rightarrow> (Inl e, w1)
           | (Inr b, w1) \<Rightarrow>
               (case py_getitem b ''items'' of
                  Inl e \<Rightarrow> (Inl e, w1)
                | Inr its \<Rightarrow>
                    (case py_getitem0 its of
                       Inl e \<Rightarrow> (Inl e, w1)
                     | Inr channel_json \<Rightarrow> (Inr channel_json, save_json fname channel_json w1)))))"

definition playlist_request :: "string \<Rightarrow> string \<Rightarrow> request" where
  "playlist_request playlist_id key =
     \<lparr>rq_url = PLAYLIST_API,
      rq_params = [(''id'', Some (JStr playlist_id)),
                   (''part'', Some (JStr ''snippet'')),
                   (''key'', Some (JStr key))]\<rparr>"

definition get_playlist_json :: "string \<Rightarrow> world \<Rightarrow> (error + json) \<times> world" where
  "get_playlist_json playlist_id w =
     (let fname = ''playlist_'' @ playlist_id in
      case load_json w fname of
        Some playlist_json \<Rightarrow> (Inr playlist_json, w)
      | None \<Rightarrow>
          (case get_json (playlist_request playlist_id (api_key w)) w of
             (Inl e, w1) \<Rightarrow> (Inl e, w1)
           | (Inr b, w1) \<Rightarrow>
               (case py_getitem b ''items'' of
                  Inl e \<Rightarrow> (Inl e, w1)
                | Inr its \<Rightarrow>
                    (case py_getitem0 its of
                       Inl e \<Rightarrow> (Inl e, w1)
                     | Inr playlist_json \<Rightarrow> (Inr playlist_json, save_json fname playlist_json w1)))))"

definition channel_playlists_request :: "string \<Rightarrow> string \<Rightarrow> json option \<Rightarrow> request" where
  "channel_playlists_request channel_id key page_token =
     \<lparr>rq_url = PLAYLIST_API,
      rq_params = [(''channelId'', Some (JStr channel_id)),
                   (''part'', Some (JStr ''id'')),
                   (''key'', Some (JStr key)),
                   (''maxResults'', Some (JNum RESULTS_PER_PAGE)),
                   (''pageToken'', page_token)]\<rparr>"

text \<open>
  The \<^verbatim>\<open>while True\<close> loop of \<^verbatim>\<open>get_channel_playlists_json\<close>, entered with the items
  gathered so far and the current page token. The server may hand out a cursor with
  every page, so the loop need not end: not returning is the value \<open>None\<close>.
\<close>

partial_function (option) channel_playlists_loop ::
  "string \<Rightarrow> json list \<Rightarrow> json option \<Rightarrow> world \<Rightarrow> ((error + json list) \<times> world) option" where
  "channel_playlists_loop channel_id items page_token w =
     (case get_json (channel_playlists_request channel_id (api_key w) page_token) w of
        (Inl e, w1) \<Rightarrow> Some (Inl e, w1)
      | (Inr channel_playlists_json, w1) \<Rightarrow>
          (case py_getitem channel_playlists_json ''items'' of
             Inl e \<Rightarrow> Some (Inl e, w1)
           | Inr page_items \<Rightarrow>
               (case py_iter page_items of
                  Inl e \<Rightarrow> Some (Inl e, w1)
                | Inr its \<Rightarrow>
                    (case py_get channel_playlists_json ''nextPageToken'' of
                       Inl e \<Rightarrow>
                         Some (Inl e, save_json (''channel_'' @ channel_id @ ''_playlists'')
                                        (JArr (items @ its)) w1)
                     | Inr next_token \<Rightarrow>
                         if py_not next_token
                         then Some (Inr (items @ its),
                                    save_json (''channel_'' @ channel_id @ ''_playlists'')
                                      (JArr (items @ its)) w1)
                         else channel_playlists_loop channel_id (items @ its) next_token
                                (save_json (''channel_'' @ channel_id @ ''_playlists'')
                                   (JArr (items @ its)) w1)))))"

definition get_channel_playlists_json :: "string \<Rightarrow> world \<Rightarrow> ((error + json) \<times> world) option" where
  "get_channel_playlists_json channel_id w =
     (case load_json w (''channel_'' @ channel_id @ ''_playlists'') of
        Some channel_playlists_json \<Rightarrow> Some (Inr channel_playlists_json, w)
      | None \<Rightarrow>
          (case channel_playlists_loop channel_id [] None w of
             None \<Rightarrow> None
           | Some (Inl e, w1) \<Rightarrow> Some (Inl e, w1)
           | Some (Inr items, w1) \<Rightarrow> Some (Inr (JArr items), w1)))"

definition videos_request :: "string \<Rightarrow> string \<Rightarrow> json option \<Rightarrow> request" where
  "videos_request playlist_id key page_token =
     \<lparr>rq_url = PLAYLIST_ITEMS_API,
      rq_params = [(''playlistId'', Some (JStr playlist_id)),
                   (''part'', Some (JStr ''snippet,contentDetails'')),
                   (''key'', Some (JStr key)),
                   (''maxResults'', Some (JNum RESULTS_PER_PAGE)),
                   (''pageToken'', page_token)]\<rparr>"

text \<open>The \<^verbatim>\<open>while True\<close> loop of \<^verbatim>\<open>get_videos_json\<close>; it saves nothing.\<close>

partial_function (option) videos_loop ::
  "string \<Rightarrow> json list \<Rightarrow> json option \<Rightarrow> world \<Rightarrow> ((error + json list) \<times> world) option" where
  "videos_loop playlist_id items page_token w =
     (case get_json (videos_request playlist_id (api_key w) page_token) w of
        (Inl e, w1) \<Rightarrow> Some (Inl e, w1)
      | (Inr videos_json, w1) \<Rightarrow>
          (case py_getitem videos_json ''items'' of
             Inl e \<Rightarrow> Some (Inl e, w1)
           | Inr page_items \<Rightarrow>
               (case py_iter page_items of
                  Inl e \<Rightarrow> Some (Inl e, w1)
                | Inr its \<Rightarrow>
                    (case py_get videos_json ''nextPageToken'' of
                       Inl e \<Rightarrow> Some (Inl e, w1)
                     | Inr next_token \<Rightarrow>
                         if py_not next_token then Some (Inr (items @ its), w1)
                         else videos_loop playlist_id (items @ its) next_token w1))))"

definition get_videos_json :: "string \<Rightarrow> world \<Rightarrow> ((error + json) \<times> world) option" where
  "get_videos_json playlist_id w =
     (case load_json w (''playlist_'' @ playlist_id @ ''_videos'') of
        Some items \<Rightarrow> Some (Inr items, w)
      | None \<Rightarrow>
          (case videos_loop playlist_id [] None w of
             None \<Rightarrow> None
           | Some (Inl e, w1) \<Rightarrow> Some (Inl e, w1)
           | Some (Inr items, w1) \<Rightarrow>
               Some (Inr (JArr items),
                     save_json (''playlist_'' @ playlist_id @ ''_videos'') (JArr items) w1)))"

section \<open>Batch author resolver\<close>

text \<open>\<^verbatim>\<open>sep.join(xs)\<close>.\<close>

fun py_join :: "string \<Rightarrow> string list \<Rightarrow> string" where
  "py_join sep [] = []"
| "py_join sep [x] = x"
| "py_join sep (x # y # ys) = x @ sep @ py_join sep (y # ys)"

definition authors_request :: "string list \<Rightarrow> string \<Rightarrow> json option \<Rightarrow> request" where
  "authors_request videos_ids key page_token =
     \<lparr>rq_url = VIDEOS_API,
      rq_params = [(''id'', Some (JStr (py_join '','' videos_ids))),
                   (''part'', Some (JStr ''snippet'')),
                   (''key'', Some (JStr key)),
                   (''maxResults'', Some (JNum RESULTS_PER_PAGE)),
                   (''pageToken'', page_token)]\<rparr>"

text \<open>
  The entry \<^verbatim>\<open>{item["id"]: {"channelId": ..., "channelTitle": ...}}\<close> built for one
  item; a list or a dict as key is unhashable.
\<close>

definition author_entry :: "json \<Rightarrow> error + (string \<times> json)" where
  "author_entry item =
     (case py_getitem item ''id'' of
        Inl e \<Rightarrow> Inl e
      | Inr vid \<Rightarrow>
          (case py_getitem item ''snippet'' of
             Inl e \<Rightarrow> Inl e
           | Inr sn \<Rightarrow>
               (case py_getitem sn ''channelId'' of
                  Inl e \<Rightarrow> Inl e
                | Inr cid \<Rightarrow>
                    (case py_getitem sn ''channelTitle'' of
                       Inl e \<Rightarrow> Inl e
                     | Inr ct \<Rightarrow>
                         (case vid of
                            JStr k \<Rightarrow> Inr (k, JObj [(''channelId'', cid), (''channelTitle'', ct)])
                          | JArr xs \<Rightarrow> Inl TypeError
                          | JObj kvs \<Rightarrow> Inl TypeError
                          | JBool b \<Rightarrow> Inl Unmodelled
                          | JNum n \<Rightarrow> Inl Unmodelled)))))"

text \<open>
  \<^verbatim>\<open>for item in videos_json["items"]: req_items.update({...})\<close>. A dict keeps its keys
  in insertion order and a known key keeps its place, which is \<open>AList.update\<close>.
\<close>

fun add_entries :: "(string \<times> json) list \<Rightarrow> json list \<Rightarrow> error + (string \<times> json) list" where
  "add_entries req_items [] = Inr req_items"
| "add_entries req_items (item # rest) =
     (case author_entry item of
        Inl e \<Rightarrow> Inl e
      | Inr (k, v) \<Rightarrow> add_entries (AList.update k v req_items) rest)"

text \<open>\<^verbatim>\<open>d.update(other)\<close> for two dicts.\<close>

definition dict_update :: "(string \<times> json) list \<Rightarrow> (string \<times> json) list \<Rightarrow> (string \<times> json) list" where
  "dict_update d other = fold (\<lambda>(k, v). AList.update k v) other d"

text \<open>The \<^verbatim>\<open>while True\<close> loop of the inner function \<^verbatim>\<open>retrieve_videos_for\<close>.\<close>

partial_function (option) retrieve_videos_loop ::
  "string list \<Rightarrow> (string \<times> json) list \<Rightarrow> json option \<Rightarrow> world \<Rightarrow>
   ((error + (string \<times> json) list) \<times> world) option" where
  "retrieve_videos_loop videos_ids req_items page_token w =
     (case get_json (authors_request videos_ids (api_key w) page_token) w of
        (Inl e, w1) \<Rightarrow> Some (Inl e, w1)
      | (Inr videos_json, w1) \<Rightarrow>
          (case py_getitem videos_json ''items'' of
             Inl e \<Rightarrow> Some (Inl e, w1)
           | Inr page_items \<Rightarrow>
               (case py_iter page_items of
                  Inl e \<Rightarrow> Some (Inl e, w1)
                | Inr its \<Rightarrow>
                    (case add_entries req_items its of
                       Inl e \<Rightarrow> Some (Inl e, w1)
                     | Inr req_items' \<Rightarrow>
                         (case py_get videos_json ''nextPageToken'' of
                            Inl e \<Rightarrow> Some (Inl e, w1)
                          | Inr next_token \<Rightarrow>
                              if py_not next_token then Some (Inr req_items', w1)
                              else retrieve_videos_loop videos_ids req_items' next_token w1)))))"

definition retrieve_videos_for ::
  "string list \<Rightarrow> world \<Rightarrow> ((error + (string \<times> json) list) \<times> world) option" where
  "retrieve_videos_for videos_ids w = retrieve_videos_loop videos_ids [] None w"

text \<open>\<^verbatim>\<open>range(0, stop, step)\<close> for a positive step.\<close>

definition py_range :: "nat \<Rightarrow> nat \<Rightarrow> nat list" where
  "py_range stop step = map (\<lambda>k. k * step) [0 ..< (stop + step - 1) div step]"

text \<open>\<^verbatim>\<open>xs[i : i + n]\<close>.\<close>

definition py_slice :: "'a list \<Rightarrow> nat \<Rightarrow> nat \<Rightarrow> 'a list" where
  "py_slice xs i n = take n (drop i xs)"

text \<open>
  \<^verbatim>\<open>for interv in range(...): items.update(retrieve_videos_for(videos_ids[interv : interv + 50]))\<close>,
  over the list of the remaining values of \<^verbatim>\<open>interv\<close>.
\<close>

fun authors_loop ::
  "nat list \<Rightarrow> string list \<Rightarrow> (string \<times> json) list \<Rightarrow> world \<Rightarrow>
   ((error + (string \<times> json) list) \<times> world) option" where
  "authors_loop [] videos_ids items w = Some (Inr items, w)"
| "authors_loop (interv # rest) videos_ids items w =
     (case retrieve_videos_for (py_slice videos_ids interv MAX_VIDEOS_PER_REQUEST) w of
        None \<Rightarrow> None
      | Some (Inl e, w1) \<Rightarrow> Some (Inl e, w1)
      | Some (Inr req_items, w1) \<Rightarrow> authors_loop rest videos_ids (dict_update items req_items) w1)"

definition get_videos_authors_info :: "string list \<Rightarrow> world \<Rightarrow> ((error + json) \<times> world) option" where
  "get_videos_authors_info videos_ids w =
     (case load_json w ''videos_channels'' of
        Some items \<Rightarrow> Some (Inr items, w)
      | None \<Rightarrow>
          (case authors_loop (py_range (length videos_ids) MAX_VIDEOS_PER_REQUEST) videos_ids [] w of
             None \<Rightarrow> None
           | Some (Inl e, w1) \<Rightarrow> Some (Inl e, w1)
           | Some (Inr items, w1) \<Rightarrow>
               Some (Inr (JObj items), save_json ''videos_channels'' (JObj items) w1)))"

section \<open>Branding assets\<close>









section \<open>Filter predicates\<close>

text \<open>
  \<^verbatim>\<open>skip_deleted_videos\<close> is the function handed to \<^verbatim>\<open>filter\<close>: it answers whether
  the item is kept. Python's \<^verbatim>\<open>and\<close> does not read the description once the title
  matches the sentinel.
\<close>

definition skip_deleted_videos :: "json \<Rightarrow> error + bool" where
  "skip_deleted_videos item =
     (case py_getitem item ''snippet'' of
        Inl e \<Rightarrow> Inl e
      | Inr sn \<Rightarrow>
          (case py_getitem sn ''title'' of
             Inl e \<Rightarrow> Inl e
           | Inr t \<Rightarrow>
               if t \<noteq> JStr ''Deleted video''
               then (case py_getitem sn ''description'' of
                       Inl e \<Rightarrow> Inl e
                     | Inr d \<Rightarrow> Inr (d \<noteq> JStr ''This video is unavailable.''))
               else Inr False))"

section \<open>Collection resolver\<close>

record playlist =
  playlist_id :: string
  title :: json
  description :: json
  creator_id :: json
  creator_name :: json
  slug :: string

text \<open>\<^verbatim>\<open>Playlist.from_id\<close>, with the constructor's call of \<^verbatim>\<open>get_slug\<close>.\<close>

definition from_id :: "string \<Rightarrow> world \<Rightarrow> (error + playlist) \<times> world" where
  "from_id pid w =
     (case get_playlist_json pid w of
        (Inl e, w1) \<Rightarrow> (Inl e, w1)
      | (Inr playlist_json, w1) \<Rightarrow>
          (case py_getitem playlist_json ''snippet'' of
             Inl e \<Rightarrow> (Inl e, w1)
           | Inr sn \<Rightarrow>
               (case py_getitem sn ''title'' of
                  Inl e \<Rightarrow> (Inl e, w1)
                | Inr t \<Rightarrow>
                    (case py_getitem sn ''description'' of
                       Inl e \<Rightarrow> (Inl e, w1)
                     | Inr d \<Rightarrow>
                         (case py_getitem sn ''channelId'' of
                            Inl e \<Rightarrow> (Inl e, w1)
                          | Inr ci \<Rightarrow>
                              (case py_getitem sn ''channelTitle'' of
                                 Inl e \<Rightarrow> (Inl e, w1)
                               | Inr ct \<Rightarrow>
                                   (case slug_of w1 t of
                                      Inl e \<Rightarrow> (Inl e, w1)
                                    | Inr s \<Rightarrow>
                                        (Inr \<lparr>playlist_id = pid, title = t, description = d,
                                               creator_id = ci, creator_name = ct, slug = s\<rparr>,
                                         w1))))))))"

text \<open>\<^verbatim>\<open>[Playlist.from_id(playlist_id) for playlist_id in ...]\<close>.\<close>

fun from_ids :: "string list \<Rightarrow> world \<Rightarrow> (error + playlist list) \<times> world" where
  "from_ids [] w = (Inr [], w)"
| "from_ids (pid # rest) w =
     (case from_id pid w of
        (Inl e, w1) \<Rightarrow> (Inl e, w1)
      | (Inr p, w1) \<Rightarrow>
          (case from_ids rest w1 of
             (Inl e, w2) \<Rightarrow> (Inl e, w2)
           | (Inr ps, w2) \<Rightarrow> (Inr (p # ps), w2)))"

text \<open>\<^verbatim>\<open>[p["id"] for p in ...]\<close>.\<close>

fun ids_of :: "json list \<Rightarrow> error + json list" where
  "ids_of [] = Inr []"
| "ids_of (p # rest) =
     (case py_getitem p ''id'' of
        Inl e \<Rightarrow> Inl e
      | Inr i \<Rightarrow> (case ids_of rest of Inl e \<Rightarrow> Inl e | Inr is \<Rightarrow> Inr (i # is)))"

text \<open>\<^verbatim>\<open>s.split(sep)\<close> for a separator of one character.\<close>

fun py_split :: "char \<Rightarrow> string \<Rightarrow> string list" where
  "py_split sep [] = [[]]"
| "py_split sep (c # cs) =
     (if c = sep then [] # py_split sep cs
      else (case py_split sep cs of [] \<Rightarrow> [[c]] | y # ys \<Rightarrow> (c # y) # ys))"

text \<open>
  \<^verbatim>\<open>list(set(playlist_ids))\<close>: building the set hashes every element (a list or a
  dict is unhashable), duplicates go, and the order of iteration is the one
  \<open>str_hash\<close> gives this process.
\<close>

fun hashable_strs :: "json list \<Rightarrow> error + string list" where
  "hashable_strs [] = Inr []"
| "hashable_strs (JStr s # rest) =
     (case hashable_strs rest of Inl e \<Rightarrow> Inl e | Inr ss \<Rightarrow> Inr (s # ss))"
| "hashable_strs (JArr xs # rest) = Inl TypeError"
| "hashable_strs (JObj kvs # rest) = Inl TypeError"
| "hashable_strs (JBool b # rest) =
     (case hashable_strs rest of Inl e \<Rightarrow> Inl e | Inr ss \<Rightarrow> Inl Unmodelled)"
| "hashable_strs (JNum n # rest) =
     (case hashable_strs rest of Inl e \<Rightarrow> Inl e | Inr ss \<Rightarrow> Inl Unmodelled)"

definition list_of_set :: "world \<Rightarrow> string list \<Rightarrow> string list" where
  "list_of_set w xs = sort_key (str_hash w) (remdups xs)"

text \<open>
  Modelled from the spec: the constants \<^verbatim>\<open>USER\<close>, \<^verbatim>\<open>CHANNEL\<close> and \<^verbatim>\<open>PLAYLIST\<close> of
  \<^verbatim>\<open>youtube2zim.constants\<close> are not among the sources. The spec's resolver takes the
  collection-type tags "user", "channel" and "playlist".
\<close>

definition USER :: string where
  "USER = ''user''"

definition CHANNEL :: string where
  "CHANNEL = ''channel''"

definition PLAYLIST :: string where
  "PLAYLIST = ''playlist''"

text \<open>
  The first half of \<^verbatim>\<open>extract_playlists_details_from\<close>: the playlist ids, the main
  channel id and the uploads playlist id of the collection.
\<close>

definition collect_ids ::
  "string \<Rightarrow> string \<Rightarrow> world \<Rightarrow> ((error + (json list \<times> json \<times> json option)) \<times> world) option" where
  "collect_ids collection_type youtube_id w =
     (if collection_type = USER \<or> collection_type = CHANNEL then
        (case get_channel_json youtube_id (collection_type = USER) w of
           (Inl e, w1) \<Rightarrow> Some (Inl e, w1)
         | (Inr channel_json, w1) \<Rightarrow>
             (case py_getitem channel_json ''id'' of
                Inl e \<Rightarrow> Some (Inl e, w1)
              | Inr main_channel_id \<Rightarrow>
                  (case main_channel_id of
                     JStr cid \<Rightarrow>
                       (case get_channel_playlists_json cid w1 of
                          None \<Rightarrow> None
                        | Some (Inl e, w2) \<Rightarrow> Some (Inl e, w2)
                        | Some (Inr listing, w2) \<Rightarrow>
                            (case py_iter listing of
                               Inl e \<Rightarrow> Some (Inl e, w2)
                             | Inr ps \<Rightarrow>
                                 (case ids_of ps of
                                    Inl e \<Rightarrow> Some (Inl e, w2)
                                  | Inr playlist_ids \<Rightarrow>
                                      (case py_getitem channel_json ''contentDetails'' of
                                         Inl e \<Rightarrow> Some (Inl e, w2)
                                       | Inr cd \<Rightarrow>
                                           (case py_getitem cd ''relatedPlaylists'' of
                                              Inl e \<Rightarrow> Some (Inl e, w2)
                                            | Inr rp \<Rightarrow>
                                                (case py_getitem rp ''uploads'' of
                                                   Inl e \<Rightarrow> Some (Inl e, w2)
                                                 | Inr up \<Rightarrow>
                                                     Some (Inr (playlist_ids @ [up], main_channel_id,
                                                                Some (last (playlist_ids @ [up]))),
                                                           w2)))))))
                   | JBool b \<Rightarrow> Some (Inl Unmodelled, w1)
                   | JNum n \<Rightarrow> Some (Inl Unmodelled, w1)
                   | JArr xs \<Rightarrow> Some (Inl Unmodelled, w1)
                   | JObj kvs \<Rightarrow> Some (Inl Unmodelled, w1))))
      else if collection_type = PLAYLIST then
        (case py_split CHR '','' youtube_id of
           [] \<Rightarrow> Some (Inl IndexError, w)
         | first_id # others \<Rightarrow>
             (case from_id first_id w of
                (Inl e, w1) \<Rightarrow> Some (Inl e, w1)
              | (Inr p, w1) \<Rightarrow>
                  Some (Inr (map JStr (first_id # others), creator_id p, None), w1)))
      else Some (Inl (NotImplementedError ''Unsupported collection_type''), w))"

definition extract_playlists_details_from ::
  "string \<Rightarrow> string \<Rightarrow> world \<Rightarrow> ((error + (playlist list \<times> json \<times> json option)) \<times> world) option" where
  "extract_playlists_details_from collection_type youtube_id w =
     (case collect_ids collection_type youtube_id w of
        None \<Rightarrow> None
      | Some (Inl e, w1) \<Rightarrow> Some (Inl e, w1)
      | Some (Inr (playlist_ids, main_channel_id, uploads_playlist_id), w1) \<Rightarrow>
          (case hashable_strs playlist_ids of
             Inl e \<Rightarrow> Some (Inl e, w1)
           | Inr ids \<Rightarrow>
               (case from_ids (list_of_set w1 ids) w1 of
                  (Inl e, w2) \<Rightarrow> Some (Inl e, w2)
                | (Inr playlists, w2) \<Rightarrow>
                    Some (Inr (playlists, main_channel_id, uploads_playlist_id), w2))))"

section \<open>Listing pages, the spec's resolver, and sample worlds\<close>

text \<open>What the three steps of \<open>get_json\<close> make of the server's answer.\<close>

definition fetch_outcome :: "response option \<Rightarrow> error + json" where
  "fetch_outcome r =
     (case r of
        None \<Rightarrow> Inl ConnectionError
      | Some req \<Rightarrow> (case raise_for_status req of Inl e \<Rightarrow> Inl e | Inr _ \<Rightarrow> response_json req))"

text \<open>
  What a pagination loop reads from one answer: the page's items and its
  continuation cursor (\<^verbatim>\<open>nextPageToken\<close>), or the exception the page raises.
\<close>

definition page_of :: "response option \<Rightarrow> error + (json list \<times> json option)" where
  "page_of r =
     (case fetch_outcome r of
        Inl e \<Rightarrow> Inl e
      | Inr b \<Rightarrow>
          (case py_getitem b ''items'' of
             Inl e \<Rightarrow> Inl e
           | Inr page_items \<Rightarrow>
               (case py_iter page_items of
                  Inl e \<Rightarrow> Inl e
                | Inr its \<Rightarrow>
                    (case py_get b ''nextPageToken'' of
                       Inl e \<Rightarrow> Inl e
                     | Inr next_token \<Rightarrow> Inr (its, next_token)))))"

text \<open>
  \<open>serves srv mk lg tok pages\<close>: asked with the cursor \<open>tok\<close> after the requests
  \<open>lg\<close>, and then with each page's own cursor, the server \<open>srv\<close> answers with
  \<open>pages\<close> in this order (\<open>mk\<close> builds the request for a cursor).
\<close>

fun serves ::
  "(request list \<Rightarrow> request \<Rightarrow> response option) \<Rightarrow> (json option \<Rightarrow> request) \<Rightarrow>
   request list \<Rightarrow> json option \<Rightarrow> (json list \<times> json option) list \<Rightarrow> bool" where
  "serves srv mk lg tok [] = True"
| "serves srv mk lg tok (p # ps) =
     (page_of (srv lg (mk tok)) = Inr p \<and> serves srv mk (lg @ [mk tok]) (snd p) ps)"

text \<open>The requests that fetch \<open>pages\<close>, and the cursor left after them.\<close>

fun page_requests ::
  "(json option \<Rightarrow> request) \<Rightarrow> json option \<Rightarrow> (json list \<times> json option) list \<Rightarrow> request list" where
  "page_requests mk tok [] = []"
| "page_requests mk tok (p # ps) = mk tok # page_requests mk (snd p) ps"

fun next_token :: "json option \<Rightarrow> (json list \<times> json option) list \<Rightarrow> json option" where
  "next_token tok [] = tok"
| "next_token tok (p # ps) = next_token (snd p) ps"

text \<open>A page carries a continuation cursor when the loop's test \<^verbatim>\<open>if not page_token\<close> fails.\<close>

definition has_cursor :: "json list \<times> json option \<Rightarrow> bool" where
  "has_cursor p = (\<not> py_not (snd p))"

text \<open>
  A sample server for the worked examples. A request without page token gets one
  resource that reads as a channel and as a playlist, with the cursor \<^verbatim>\<open>"p2"\<close>
  when the request asks for playlist items; the page token \<^verbatim>\<open>"p2"\<close> gets a second
  and last page; any other page token gets a server error.
\<close>

definition sample_resource :: "string \<Rightarrow> json" where
  "sample_resource i =
     JObj [(''id'', JStr i),
           (''snippet'',
              JObj [(''title'', JStr ''Talks''),
                    (''description'', JStr ''All talks''),
                    (''channelId'', JStr ''UC1''),
                    (''channelTitle'', JStr ''Acme''),
                    (''thumbnails'',
                       JObj [(''default'', JObj [(''url'', JStr ''http://img/88.jpg'')]),
                             (''medium'', JObj [(''url'', JStr ''http://img/240.jpg'')])])]),
           (''contentDetails'', JObj [(''relatedPlaylists'', JObj [(''uploads'', JStr ''PUp'')])])]"

definition sample_remote :: "request list \<Rightarrow> request \<Rightarrow> response option" where
  "sample_remote lg rq =
     (case map_of (rq_params rq) ''pageToken'' of
        Some (Some t) \<Rightarrow>
          (if t = JStr ''p2''
           then Some \<lparr>status_code = 200,
                      json_body = Some (JObj [(''items'', JArr [sample_resource ''P2''])])\<rparr>
           else Some \<lparr>status_code = 500, json_body = None\<rparr>)
      | _ \<Rightarrow>
          (if rq_url rq = PLAYLIST_ITEMS_API
           then Some \<lparr>status_code = 200,
                      json_body = Some (JObj [(''items'', JArr [sample_resource ''P1'']),
                                              (''nextPageToken'', JStr ''p2'')])\<rparr>
           else Some \<lparr>status_code = 200,
                      json_body = Some (JObj [(''items'', JArr [sample_resource ''P1''])])\<rparr>))"

definition sample_world :: world where
  "sample_world =
     \<lparr>api_key = ''k'', cache = Map.empty, remote = sample_remote, sent = [],
      disk = Dir [(''channels'', Dir [])], stream = (\<lambda>u. Some ''jpeg''),
      resize = (\<lambda>c width height. Some c), assets = [],
      slug_of = (\<lambda>t. Inr ''talks''), str_hash = length\<rparr>"

text \<open>The sample world with all four cache entries of one channel and one playlist present.\<close>

definition cached_world :: world where
  "cached_world = sample_world\<lparr>cache :=
      [''channel_UC1'' \<mapsto> JStr ''kept'', ''channel_UC1_playlists'' \<mapsto> JStr ''kept'',
       ''playlist_P1'' \<mapsto> JStr ''kept'', ''playlist_P1_videos'' \<mapsto> JStr ''kept'']\<rparr>"

text \<open>
  The world after the pages \<open>ps\<close> were fetched by a loop that saves after every page:
  the file \<open>fname\<close> holds all items gathered so far, or is untouched if no page came.
\<close>

definition saved_pages :: "string \<Rightarrow> json list \<Rightarrow> (json list \<times> json option) list \<Rightarrow> world \<Rightarrow> world" where
  "saved_pages fname items ps w =
     (if ps = [] then w else save_json fname (JArr (items @ concat (map fst ps))) w)"

text \<open>
  A server that fails in the middle of a listing: the first page carries a cursor, and
  every request with a page token gets a server error.
\<close>

definition flaky_remote :: "request list \<Rightarrow> request \<Rightarrow> response option" where
  "flaky_remote lg rq =
     (case map_of (rq_params rq) ''pageToken'' of
        Some (Some t) \<Rightarrow> Some \<lparr>status_code = 500, json_body = None\<rparr>
      | _ \<Rightarrow>
          Some \<lparr>status_code = 200,
                json_body = Some (JObj [(''items'', JArr [sample_resource ''P1'']),
                                        (''nextPageToken'', JStr ''p2'')])\<rparr>)"

definition flaky_world :: world where
  "flaky_world = sample_world\<lparr>remote := flaky_remote\<rparr>"

text \<open>
  The spec's partition of the ids into consecutive chunks of at most \<open>n\<close>.
\<close>

function chunks_of :: "nat \<Rightarrow> 'a list \<Rightarrow> 'a list list" where
  "chunks_of n xs = (if n = 0 \<or> xs = [] then [] else take n xs # chunks_of n (drop n xs))"
  by pat_completeness auto
termination
  by (relation "measure (\<lambda>(n, xs). length xs)") auto

declare chunks_of.simps [simp del]

text \<open>
  The spec's words for the resolver (section 4.4): for each chunk, in order, run the
  paginated fetch of the bulk video lookup (\<open>retrieve_videos_for\<close>, the module's own);
  merge all chunk results into one mapping; persist the merged mapping once.
\<close>

fun fetch_chunks ::
  "string list list \<Rightarrow> world \<Rightarrow> ((error + (string \<times> json) list list) \<times> world) option" where
  "fetch_chunks [] w = Some (Inr [], w)"
| "fetch_chunks (c # cs) w =
     (case retrieve_videos_for c w of
        None \<Rightarrow> None
      | Some (Inl e, w1) \<Rightarrow> Some (Inl e, w1)
      | Some (Inr r, w1) \<Rightarrow>
          (case fetch_chunks cs w1 of
             None \<Rightarrow> None
           | Some (Inl e, w2) \<Rightarrow> Some (Inl e, w2)
           | Some (Inr rs, w2) \<Rightarrow> Some (Inr (r # rs), w2)))"

definition resolveAuthors_spec :: "string list \<Rightarrow> world \<Rightarrow> ((error + json) \<times> world) option" where
  "resolveAuthors_spec videoIds w =
     (case load_json w ''videos_channels'' of
        Some m \<Rightarrow> Some (Inr m, w)
      | None \<Rightarrow>
          (case fetch_chunks (chunks_of 50 videoIds) w of
             None \<Rightarrow> None
           | Some (Inl e, w1) \<Rightarrow> Some (Inl e, w1)
           | Some (Inr rs, w1) \<Rightarrow>
               Some (Inr (JObj (foldl dict_update [] rs)),
                     save_json ''videos_channels'' (JObj (foldl dict_update [] rs)) w1)))"





text \<open>What the sample server's resource says about its author.\<close>

definition sample_author :: "(string \<times> json) list" where
  "sample_author = [(''P1'', JObj [(''channelId'', JStr ''UC1''), (''channelTitle'', JStr ''Acme'')])]"

text \<open>The playlist the sample server describes, under the id it was asked for.\<close>

definition sample_playlist_of :: "string \<Rightarrow> playlist" where
  "sample_playlist_of pid =
     \<lparr>playlist_id = pid, title = JStr ''Talks'', description = JStr ''All talks'',
      creator_id = JStr ''UC1'', creator_name = JStr ''Acme'', slug = ''talks''\<rparr>"







text \<open>
  The spec's \<^verbatim>\<open>isDeleted\<close>: the filter function drops the item.
\<close>

definition isDeleted :: "json \<Rightarrow> bool" where
  "isDeleted item = (skip_deleted_videos item = Inr False)"

section \<open>Cache hits\<close>

lemma get_channel_json_hit:
  "load_json w (''channel_'' @ cid) = Some v \<Longrightarrow>
   get_channel_json cid for_username w = (Inr v, w)"
  by (simp add: get_channel_json_def)

lemma get_playlist_json_hit:
  "load_json w (''playlist_'' @ pid) = Some v \<Longrightarrow>
   get_playlist_json pid w = (Inr v, w)"
  by (simp add: get_playlist_json_def)

lemma get_channel_playlists_json_hit:
  "load_json w (''channel_'' @ cid @ ''_playlists'') = Some v \<Longrightarrow>
   get_channel_playlists_json cid w = Some (Inr v, w)"
  by (simp add: get_channel_playlists_json_def)

lemma get_videos_json_hit:
  "load_json w (''playlist_'' @ pid @ ''_videos'') = Some v \<Longrightarrow>
   get_videos_json pid w = Some (Inr v, w)"
  by (simp add: get_videos_json_def)

lemma channel_playlists_loop_saved_aux:
  "channel_playlists_loop cid items tok w = Some y \<Longrightarrow>
   (\<forall>res w'. y = (Inr res, w') \<longrightarrow>
      load_json w' (''channel_'' @ cid @ ''_playlists'') = Some (JArr res))"
proof (induction rule: channel_playlists_loop.raw_induct [rotated 1, consumes 1])
  case (1 loop cid items tok w y)
  from "1.hyps" show ?case
    by (auto simp: save_json_def load_json_def split: prod.splits sum.splits if_splits
             dest!: "1.IH" [unfolded load_json_def])
qed

lemma channel_playlists_loop_saved:
  "channel_playlists_loop cid items tok w = Some (Inr res, w') \<Longrightarrow>
   load_json w' (''channel_'' @ cid @ ''_playlists'') = Some (JArr res)"
  using channel_playlists_loop_saved_aux by blast

lemma get_channel_json_populates:
  "get_channel_json cid fu w = (Inr v, w') \<Longrightarrow> load_json w' (''channel_'' @ cid) = Some v"
  by (auto simp: get_channel_json_def Let_def save_json_def load_json_def
           split: option.splits prod.splits sum.splits)

lemma get_playlist_json_populates:
  "get_playlist_json pid w = (Inr v, w') \<Longrightarrow> load_json w' (''playlist_'' @ pid) = Some v"
  by (auto simp: get_playlist_json_def Let_def save_json_def load_json_def
           split: option.splits prod.splits sum.splits)

lemma get_channel_playlists_json_populates:
  "get_channel_playlists_json cid w = Some (Inr v, w') \<Longrightarrow>
   load_json w' (''channel_'' @ cid @ ''_playlists'') = Some v"
  by (auto simp: get_channel_playlists_json_def split: option.splits prod.splits sum.splits
           dest: channel_playlists_loop_saved)

lemma get_videos_json_populates:
  "get_videos_json pid w = Some (Inr v, w') \<Longrightarrow>
   load_json w' (''playlist_'' @ pid @ ''_videos'') = Some v"
  by (auto simp: get_videos_json_def save_json_def load_json_def
           split: option.splits prod.splits sum.splits)

lemmas sample_defs = load_json_def save_json_def sample_world_def get_json_def requests_get_def
  raise_for_status_def response_json_def sample_remote_def sample_resource_def
  CHANNELS_API_def PLAYLIST_ITEMS_API_def YOUTUBE_API_def PLAYLIST_API_def RESULTS_PER_PAGE_def

lemma sample_channel:
  "get_channel_json ''UC1'' False sample_world =
     (Inr (sample_resource ''P1''),
      sample_world\<lparr>sent := [channel_request ''UC1'' False ''k''],
                   cache := [''channel_UC1'' \<mapsto> sample_resource ''P1'']\<rparr>)"
  by (simp add: get_channel_json_def channel_request_def sample_defs)

lemma sample_playlist:
  "get_playlist_json ''P1'' sample_world =
     (Inr (sample_resource ''P1''),
      sample_world\<lparr>sent := [playlist_request ''P1'' ''k''],
                   cache := [''playlist_P1'' \<mapsto> sample_resource ''P1'']\<rparr>)"
  by (simp add: get_playlist_json_def playlist_request_def sample_defs)

lemma sample_channel_playlists:
  "get_channel_playlists_json ''UC1'' sample_world =
     Some (Inr (JArr [sample_resource ''P1'']),
           sample_world\<lparr>sent := [channel_playlists_request ''UC1'' ''k'' None],
                        cache := [''channel_UC1_playlists'' \<mapsto> JArr [sample_resource ''P1'']]\<rparr>)"
  apply (simp add: get_channel_playlists_json_def load_json_def sample_world_def)
  apply (subst channel_playlists_loop.simps)
  apply (simp add: channel_playlists_request_def sample_defs)
  done

lemma sample_videos:
  "get_videos_json ''P1'' sample_world =
     Some (Inr (JArr [sample_resource ''P1'', sample_resource ''P2'']),
           sample_world\<lparr>sent := [videos_request ''P1'' ''k'' None,
                                  videos_request ''P1'' ''k'' (Some (JStr ''p2''))],
                        cache := [''playlist_P1_videos'' \<mapsto>
                                    JArr [sample_resource ''P1'', sample_resource ''P2'']]\<rparr>)"
  apply (simp add: get_videos_json_def load_json_def sample_world_def)
  apply (subst videos_loop.simps)
  apply (simp add: videos_request_def sample_defs)
  apply (subst videos_loop.simps)
  apply (simp add: videos_request_def sample_defs)
  done


text \<open>
  C1. For each of the four accessors (\<^verbatim>\<open>get_channel_json\<close>,
  \<^verbatim>\<open>get_channel_playlists_json\<close>, \<^verbatim>\<open>get_playlist_json\<close>, \<^verbatim>\<open>get_videos_json\<close>) and
  every identifier: when the cache holds the entry of the identifier's key, the call
  returns exactly the cached value and leaves the world as it was, so the log of
  requests does not grow. Hence a call that succeeded leaves a world in which the same
  call returns the same value and changes nothing.
\<close>

theorem C1_cached_value_returned_without_request:
  "(load_json w (''channel_'' @ cid) = Some v \<longrightarrow>
      get_channel_json cid for_username w = (Inr v, w))
   \<and> (load_json w (''channel_'' @ cid @ ''_playlists'') = Some v \<longrightarrow>
      get_channel_playlists_json cid w = Some (Inr v, w))
   \<and> (load_json w (''playlist_'' @ pid) = Some v \<longrightarrow>
      get_playlist_json pid w = (Inr v, w))
   \<and> (load_json w (''playlist_'' @ pid @ ''_videos'') = Some v \<longrightarrow>
      get_videos_json pid w = Some (Inr v, w))
   \<and> (get_channel_json cid1 for_username1 w1 = (Inr v1, w1') \<longrightarrow>
      get_channel_json cid1 again_for_username w1' = (Inr v1, w1'))
   \<and> (get_channel_playlists_json cid2 w2 = Some (Inr v2, w2') \<longrightarrow>
      get_channel_playlists_json cid2 w2' = Some (Inr v2, w2'))
   \<and> (get_playlist_json pid3 w3 = (Inr v3, w3') \<longrightarrow>
      get_playlist_json pid3 w3' = (Inr v3, w3'))
   \<and> (get_videos_json pid4 w4 = Some (Inr v4, w4') \<longrightarrow>
      get_videos_json pid4 w4' = Some (Inr v4, w4'))"
proof (intro conjI impI)
  assume "get_channel_json cid1 for_username1 w1 = (Inr v1, w1')"
  then show "get_channel_json cid1 again_for_username w1' = (Inr v1, w1')"
    by (intro get_channel_json_hit get_channel_json_populates)
next
  assume "get_channel_playlists_json cid2 w2 = Some (Inr v2, w2')"
  then show "get_channel_playlists_json cid2 w2' = Some (Inr v2, w2')"
    by (intro get_channel_playlists_json_hit get_channel_playlists_json_populates)
next
  assume "get_playlist_json pid3 w3 = (Inr v3, w3')"
  then show "get_playlist_json pid3 w3' = (Inr v3, w3')"
    by (intro get_playlist_json_hit get_playlist_json_populates)
next
  assume "get_videos_json pid4 w4 = Some (Inr v4, w4')"
  then show "get_videos_json pid4 w4' = Some (Inr v4, w4')"
    by (intro get_videos_json_hit get_videos_json_populates)
qed (simp_all add: get_channel_json_hit get_channel_playlists_json_hit get_playlist_json_hit
       get_videos_json_hit)

theorem C1_witness:
  "load_json cached_world (''channel_'' @ ''UC1'') = Some (JStr ''kept'')
   \<and> get_channel_json ''UC1'' True cached_world = (Inr (JStr ''kept''), cached_world)
   \<and> get_channel_playlists_json ''UC1'' cached_world = Some (Inr (JStr ''kept''), cached_world)
   \<and> get_playlist_json ''P1'' cached_world = (Inr (JStr ''kept''), cached_world)
   \<and> get_videos_json ''P1'' cached_world = Some (Inr (JStr ''kept''), cached_world)
   \<and> fst (get_channel_json ''UC1'' False sample_world) = Inr (sample_resource ''P1'')
   \<and> get_channel_json ''UC1'' True (snd (get_channel_json ''UC1'' False sample_world)) =
       get_channel_json ''UC1'' False sample_world
   \<and> map_option fst (get_channel_playlists_json ''UC1'' sample_world) =
       Some (Inr (JArr [sample_resource ''P1'']))
   \<and> get_channel_playlists_json ''UC1''
         (snd (the (get_channel_playlists_json ''UC1'' sample_world))) =
       get_channel_playlists_json ''UC1'' sample_world
   \<and> fst (get_playlist_json ''P1'' sample_world) = Inr (sample_resource ''P1'')
   \<and> get_playlist_json ''P1'' (snd (get_playlist_json ''P1'' sample_world)) =
       get_playlist_json ''P1'' sample_world
   \<and> map_option fst (get_videos_json ''P1'' sample_world) =
       Some (Inr (JArr [sample_resource ''P1'', sample_resource ''P2'']))
   \<and> get_videos_json ''P1'' (snd (the (get_videos_json ''P1'' sample_world))) =
       get_videos_json ''P1'' sample_world"
proof -
  have c: "load_json cached_world (''channel_'' @ ''UC1'') = Some (JStr ''kept'')"
          "load_json cached_world (''channel_'' @ ''UC1'' @ ''_playlists'') = Some (JStr ''kept'')"
          "load_json cached_world (''playlist_'' @ ''P1'') = Some (JStr ''kept'')"
          "load_json cached_world (''playlist_'' @ ''P1'' @ ''_videos'') = Some (JStr ''kept'')"
    by (simp_all add: cached_world_def load_json_def)
  note t = C1_cached_value_returned_without_request
    [of cached_world "''UC1''" "JStr ''kept''" True "''P1''"
        "''UC1''" False sample_world "sample_resource ''P1''" _ True
        "''UC1''" sample_world "JArr [sample_resource ''P1'']" _
        "''P1''" sample_world "sample_resource ''P1''" _
        "''P1''" sample_world "JArr [sample_resource ''P1'', sample_resource ''P2'']" _]
  show ?thesis
    using c t sample_channel sample_playlist sample_channel_playlists sample_videos
    by simp
qed

section \<open>Pagination\<close>

lemma get_json_eq:
  "get_json rq w = (fetch_outcome (remote w (sent w) rq), w\<lparr>sent := sent w @ [rq]\<rparr>)"
  by (simp add: get_json_def requests_get_def fetch_outcome_def split: option.splits sum.splits)

lemma py_get_after_getitem:
  "py_getitem b k = Inr x \<Longrightarrow> \<exists>t. py_get b k' = Inr t"
  by (cases b) simp_all

lemma videos_loop_step:
  "videos_loop pid items tok w =
     (case page_of (remote w (sent w) (videos_request pid (api_key w) tok)) of
        Inl e \<Rightarrow> Some (Inl e, w\<lparr>sent := sent w @ [videos_request pid (api_key w) tok]\<rparr>)
      | Inr (its, nxt) \<Rightarrow>
          if py_not nxt
          then Some (Inr (items @ its),
                     w\<lparr>sent := sent w @ [videos_request pid (api_key w) tok]\<rparr>)
          else videos_loop pid (items @ its) nxt
                 (w\<lparr>sent := sent w @ [videos_request pid (api_key w) tok]\<rparr>))"
  by (subst videos_loop.simps) (simp add: get_json_eq page_of_def split: sum.splits)

lemma channel_playlists_loop_step:
  "channel_playlists_loop cid items tok w =
     (case page_of (remote w (sent w) (channel_playlists_request cid (api_key w) tok)) of
        Inl e \<Rightarrow>
          Some (Inl e, w\<lparr>sent := sent w @ [channel_playlists_request cid (api_key w) tok]\<rparr>)
      | Inr (its, nxt) \<Rightarrow>
          if py_not nxt
          then Some (Inr (items @ its),
                     save_json (''channel_'' @ cid @ ''_playlists'') (JArr (items @ its))
                       (w\<lparr>sent := sent w @ [channel_playlists_request cid (api_key w) tok]\<rparr>))
          else channel_playlists_loop cid (items @ its) nxt
                 (save_json (''channel_'' @ cid @ ''_playlists'') (JArr (items @ its))
                    (w\<lparr>sent := sent w @ [channel_playlists_request cid (api_key w) tok]\<rparr>)))"
  apply (subst channel_playlists_loop.simps)
  apply (simp add: get_json_eq page_of_def split: sum.splits)
  using py_get_after_getitem apply (metis sum.distinct(1))
  done

lemma videos_loop_pages:
  "serves (remote w) (videos_request pid (api_key w)) (sent w) tok ps \<Longrightarrow>
   list_all has_cursor ps \<Longrightarrow>
   videos_loop pid items tok w =
   videos_loop pid (items @ concat (map fst ps)) (next_token tok ps)
     (w\<lparr>sent := sent w @ page_requests (videos_request pid (api_key w)) tok ps\<rparr>)"
proof (induction ps arbitrary: items tok w)
  case Nil
  then show ?case by simp
next
  case (Cons p ps)
  let ?w1 = "w\<lparr>sent := sent w @ [videos_request pid (api_key w) tok]\<rparr>"
  obtain its nxt where p: "p = (its, nxt)" by (cases p)
  from Cons.prems have page: "page_of (remote w (sent w) (videos_request pid (api_key w) tok)) = Inr (its, nxt)"
    and rest: "serves (remote ?w1) (videos_request pid (api_key ?w1)) (sent ?w1) nxt ps"
    and curs: "list_all has_cursor ps"
    by (simp_all add: p)
  from Cons.prems have cur: "\<not> py_not nxt"
    by (simp add: p has_cursor_def)
  have "videos_loop pid items tok w = videos_loop pid (items @ its) nxt ?w1"
    by (subst videos_loop_step) (simp add: page cur)
  also have "\<dots> = videos_loop pid ((items @ its) @ concat (map fst ps)) (next_token nxt ps)
       (?w1\<lparr>sent := sent ?w1 @ page_requests (videos_request pid (api_key ?w1)) nxt ps\<rparr>)"
    by (rule Cons.IH [OF rest curs])
  finally show ?case by (simp add: p)
qed

lemma channel_playlists_loop_pages:
  "serves (remote w) (channel_playlists_request cid (api_key w)) (sent w) tok ps \<Longrightarrow>
   list_all has_cursor ps \<Longrightarrow>
   channel_playlists_loop cid items tok w =
   channel_playlists_loop cid (items @ concat (map fst ps)) (next_token tok ps)
     (saved_pages (''channel_'' @ cid @ ''_playlists'') items ps
        (w\<lparr>sent := sent w @ page_requests (channel_playlists_request cid (api_key w)) tok ps\<rparr>))"
proof (induction ps arbitrary: items tok w)
  case Nil
  then show ?case by (simp add: saved_pages_def)
next
  case (Cons p ps)
  let ?rq = "channel_playlists_request cid (api_key w) tok"
  let ?f = "''channel_'' @ cid @ ''_playlists''"
  obtain its nxt where p: "p = (its, nxt)" by (cases p)
  let ?w1 = "save_json ?f (JArr (items @ its)) (w\<lparr>sent := sent w @ [?rq]\<rparr>)"
  from Cons.prems have page: "page_of (remote w (sent w) ?rq) = Inr (its, nxt)"
    and rest: "serves (remote ?w1) (channel_playlists_request cid (api_key ?w1)) (sent ?w1) nxt ps"
    and curs: "list_all has_cursor ps"
    by (simp_all add: p save_json_def)
  from Cons.prems have cur: "\<not> py_not nxt"
    by (simp add: p has_cursor_def)
  have A: "channel_playlists_loop cid items tok w = channel_playlists_loop cid (items @ its) nxt ?w1"
    by (subst channel_playlists_loop_step) (simp add: page cur)
  have B: "channel_playlists_loop cid (items @ its) nxt ?w1 =
       channel_playlists_loop cid ((items @ its) @ concat (map fst ps)) (next_token nxt ps)
       (saved_pages ?f (items @ its) ps
          (?w1\<lparr>sent := sent ?w1 @ page_requests (channel_playlists_request cid (api_key ?w1)) nxt ps\<rparr>))"
    by (rule Cons.IH [OF rest curs])
  have C: "saved_pages ?f (items @ its) ps
          (?w1\<lparr>sent := sent ?w1 @ page_requests (channel_playlists_request cid (api_key ?w1)) nxt ps\<rparr>) =
        saved_pages ?f items (p # ps)
          (w\<lparr>sent := sent w @ page_requests (channel_playlists_request cid (api_key w)) tok (p # ps)\<rparr>)"
    by (cases "ps = []") (simp_all add: p saved_pages_def save_json_def)
  have D: "(items @ its) @ concat (map fst ps) = items @ concat (map fst (p # ps))"
    and E: "next_token nxt ps = next_token tok (p # ps)"
    by (simp_all add: p)
  show ?case
    by (simp only: A B C D E)
qed


lemma serves_append:
  "serves srv mk lg tok (ps @ qs) =
     (serves srv mk lg tok ps \<and>
      serves srv mk (lg @ page_requests mk tok ps) (next_token tok ps) qs)"
  by (induction ps arbitrary: lg tok) auto

lemma page_requests_append:
  "page_requests mk tok (ps @ qs) = page_requests mk tok ps @ page_requests mk (next_token tok ps) qs"
  by (induction ps arbitrary: tok) auto

lemma next_token_append: "next_token tok (ps @ qs) = next_token (next_token tok ps) qs"
  by (induction ps arbitrary: tok) auto

lemma videos_loop_complete:
  assumes "serves (remote w) (videos_request pid (api_key w)) (sent w) tok (ps @ [p])"
    and "list_all has_cursor ps" and "\<not> has_cursor p"
  shows "videos_loop pid items tok w =
         Some (Inr (items @ concat (map fst (ps @ [p]))),
               w\<lparr>sent := sent w @ page_requests (videos_request pid (api_key w)) tok (ps @ [p])\<rparr>)"
proof -
  let ?mk = "videos_request pid (api_key w)"
  let ?w1 = "w\<lparr>sent := sent w @ page_requests ?mk tok ps\<rparr>"
  from assms(1) have s1: "serves (remote w) ?mk (sent w) tok ps"
    and s2: "page_of (remote w (sent w @ page_requests ?mk tok ps) (?mk (next_token tok ps))) = Inr p"
    by (simp_all add: serves_append)
  have "videos_loop pid items tok w =
        videos_loop pid (items @ concat (map fst ps)) (next_token tok ps) ?w1"
    by (rule videos_loop_pages [OF s1 assms(2)])
  also have "\<dots> = Some (Inr ((items @ concat (map fst ps)) @ fst p),
                         ?w1\<lparr>sent := sent ?w1 @ [?mk (next_token tok ps)]\<rparr>)"
    using s2 assms(3) by (subst videos_loop_step) (cases p, simp add: has_cursor_def)
  finally show ?thesis by (simp add: page_requests_append)
qed

lemma videos_loop_fails:
  assumes "serves (remote w) (videos_request pid (api_key w)) (sent w) tok ps"
    and "list_all has_cursor ps"
    and "page_of (remote w (sent w @ page_requests (videos_request pid (api_key w)) tok ps)
                    (videos_request pid (api_key w) (next_token tok ps))) = Inl e"
  shows "videos_loop pid items tok w =
         Some (Inl e,
               w\<lparr>sent := sent w @ page_requests (videos_request pid (api_key w)) tok ps
                             @ [videos_request pid (api_key w) (next_token tok ps)]\<rparr>)"
proof -
  let ?mk = "videos_request pid (api_key w)"
  let ?w1 = "w\<lparr>sent := sent w @ page_requests ?mk tok ps\<rparr>"
  have "videos_loop pid items tok w =
        videos_loop pid (items @ concat (map fst ps)) (next_token tok ps) ?w1"
    by (rule videos_loop_pages [OF assms(1,2)])
  also have "\<dots> = Some (Inl e, ?w1\<lparr>sent := sent ?w1 @ [?mk (next_token tok ps)]\<rparr>)"
    using assms(3) by (subst videos_loop_step) simp
  finally show ?thesis by simp
qed

lemma saved_pages_fields:
  "remote (saved_pages f items ps w) = remote w"
  "api_key (saved_pages f items ps w) = api_key w"
  "sent (saved_pages f items ps w) = sent w"
  by (simp_all add: saved_pages_def save_json_def)

lemma channel_playlists_loop_fails:
  assumes "serves (remote w) (channel_playlists_request cid (api_key w)) (sent w) tok ps"
    and "list_all has_cursor ps"
    and "page_of (remote w (sent w @ page_requests (channel_playlists_request cid (api_key w)) tok ps)
                    (channel_playlists_request cid (api_key w) (next_token tok ps))) = Inl e"
  shows "channel_playlists_loop cid items tok w =
         Some (Inl e,
               saved_pages (''channel_'' @ cid @ ''_playlists'') items ps
                 (w\<lparr>sent := sent w @ page_requests (channel_playlists_request cid (api_key w)) tok ps
                             @ [channel_playlists_request cid (api_key w) (next_token tok ps)]\<rparr>))"
proof -
  let ?mk = "channel_playlists_request cid (api_key w)"
  let ?f = "''channel_'' @ cid @ ''_playlists''"
  let ?w1 = "saved_pages ?f items ps (w\<lparr>sent := sent w @ page_requests ?mk tok ps\<rparr>)"
  have "channel_playlists_loop cid items tok w =
        channel_playlists_loop cid (items @ concat (map fst ps)) (next_token tok ps) ?w1"
    by (rule channel_playlists_loop_pages [OF assms(1,2)])
  also have "\<dots> = Some (Inl e, ?w1\<lparr>sent := sent ?w1 @ [?mk (next_token tok ps)]\<rparr>)"
    using assms(3) by (subst channel_playlists_loop_step) (simp add: saved_pages_fields)
  also have "?w1\<lparr>sent := sent ?w1 @ [?mk (next_token tok ps)]\<rparr> =
      saved_pages ?f items ps
        (w\<lparr>sent := sent w @ page_requests ?mk tok ps @ [?mk (next_token tok ps)]\<rparr>)"
    by (simp add: saved_pages_def save_json_def)
  finally show ?thesis .
qed

lemma channel_playlists_loop_complete:
  assumes "serves (remote w) (channel_playlists_request cid (api_key w)) (sent w) tok (ps @ [p])"
    and "list_all has_cursor ps" and "\<not> has_cursor p"
  shows "channel_playlists_loop cid items tok w =
         Some (Inr (items @ concat (map fst (ps @ [p]))),
               save_json (''channel_'' @ cid @ ''_playlists'')
                 (JArr (items @ concat (map fst (ps @ [p]))))
                 (w\<lparr>sent := sent w @ page_requests (channel_playlists_request cid (api_key w)) tok
                                       (ps @ [p])\<rparr>))"
proof -
  let ?mk = "channel_playlists_request cid (api_key w)"
  let ?f = "''channel_'' @ cid @ ''_playlists''"
  let ?w1 = "saved_pages ?f items ps (w\<lparr>sent := sent w @ page_requests ?mk tok ps\<rparr>)"
  from assms(1) have s1: "serves (remote w) ?mk (sent w) tok ps"
    and s2: "page_of (remote w (sent w @ page_requests ?mk tok ps) (?mk (next_token tok ps))) = Inr p"
    by (simp_all add: serves_append)
  have "channel_playlists_loop cid items tok w =
        channel_playlists_loop cid (items @ concat (map fst ps)) (next_token tok ps) ?w1"
    by (rule channel_playlists_loop_pages [OF s1 assms(2)])
  also have "\<dots> = Some (Inr ((items @ concat (map fst ps)) @ fst p),
                         save_json ?f (JArr ((items @ concat (map fst ps)) @ fst p))
                           (?w1\<lparr>sent := sent ?w1 @ [?mk (next_token tok ps)]\<rparr>))"
    using s2 assms(3)
    by (subst channel_playlists_loop_step) (cases p, simp add: has_cursor_def saved_pages_fields)
  also have "save_json ?f (JArr ((items @ concat (map fst ps)) @ fst p))
               (?w1\<lparr>sent := sent ?w1 @ [?mk (next_token tok ps)]\<rparr>) =
             save_json ?f (JArr (items @ concat (map fst (ps @ [p]))))
               (w\<lparr>sent := sent w @ page_requests ?mk tok (ps @ [p])\<rparr>)"
    by (simp add: saved_pages_def save_json_def page_requests_append)
  finally show ?thesis by simp
qed

lemmas page_defs = load_json_def save_json_def sample_world_def
  fetch_outcome_def page_of_def
  raise_for_status_def response_json_def sample_remote_def sample_resource_def
  CHANNELS_API_def PLAYLIST_ITEMS_API_def YOUTUBE_API_def PLAYLIST_API_def RESULTS_PER_PAGE_def

text \<open>
  C4. For a server that answers the playlist-items requests of \<^verbatim>\<open>get_videos_json\<close>
  with N pages, one after the other, where pages 1..N-1 carry a continuation cursor and
  page N does not, the call on an empty cache entry returns: its result is exactly the
  concatenation of the N pages' items, in page order and with the order inside each
  page kept. It sent one request per page and saved that list.
\<close>

theorem C4_videos_pages_concatenated:
  assumes "load_json w (''playlist_'' @ pid @ ''_videos'') = None"
    and "serves (remote w) (videos_request pid (api_key w)) (sent w) None pages"
    and "pages \<noteq> []"
    and "list_all has_cursor (butlast pages)"
    and "\<not> has_cursor (last pages)"
  shows "get_videos_json pid w =
         Some (Inr (JArr (concat (map fst pages))),
               save_json (''playlist_'' @ pid @ ''_videos'') (JArr (concat (map fst pages)))
                 (w\<lparr>sent := sent w @ page_requests (videos_request pid (api_key w)) None pages\<rparr>))"
proof -
  from assms(3) have split: "pages = butlast pages @ [last pages]" by simp
  have "videos_loop pid [] None w =
        Some (Inr ([] @ concat (map fst (butlast pages @ [last pages]))),
              w\<lparr>sent := sent w @ page_requests (videos_request pid (api_key w)) None
                                   (butlast pages @ [last pages])\<rparr>)"
    using assms(2,4,5) split by (intro videos_loop_complete) simp_all
  then have "videos_loop pid [] None w =
        Some (Inr (concat (map fst pages)),
              w\<lparr>sent := sent w @ page_requests (videos_request pid (api_key w)) None pages\<rparr>)"
    using split by simp
  then show ?thesis
    using assms(1) by (simp add: get_videos_json_def)
qed

theorem C4_witness:
  "load_json sample_world (''playlist_'' @ ''P1'' @ ''_videos'') = None
   \<and> serves (remote sample_world) (videos_request ''P1'' (api_key sample_world))
        (sent sample_world) None
        [([sample_resource ''P1''], Some (JStr ''p2'')), ([sample_resource ''P2''], None)]
   \<and> list_all has_cursor [([sample_resource ''P1''], Some (JStr ''p2''))]
   \<and> \<not> has_cursor ([sample_resource ''P2''], None)
   \<and> get_videos_json ''P1'' sample_world =
       Some (Inr (JArr [sample_resource ''P1'', sample_resource ''P2'']),
             sample_world\<lparr>sent := [videos_request ''P1'' ''k'' None,
                                    videos_request ''P1'' ''k'' (Some (JStr ''p2''))],
                          cache := [''playlist_P1_videos'' \<mapsto>
                                      JArr [sample_resource ''P1'', sample_resource ''P2'']]\<rparr>)"
proof -
  let ?pages = "[([sample_resource ''P1''], Some (JStr ''p2'')), ([sample_resource ''P2''], None)]"
  have h1: "load_json sample_world (''playlist_'' @ ''P1'' @ ''_videos'') = None"
    by (simp add: load_json_def sample_world_def)
  have h2: "serves (remote sample_world) (videos_request ''P1'' (api_key sample_world))
        (sent sample_world) None ?pages"
    by (simp add: videos_request_def page_defs)
  have h3: "?pages \<noteq> []" by simp
  have h4: "list_all has_cursor (butlast ?pages)" by (simp add: has_cursor_def)
  have h5: "\<not> has_cursor (last ?pages)" by (simp add: has_cursor_def)
  have w: "api_key sample_world = ''k''" "sent sample_world = []" "cache sample_world = Map.empty"
    by (simp_all add: sample_world_def)
  show ?thesis
    using h1 h2 h4 h5 C4_videos_pages_concatenated [OF h1 h2 h3 h4 h5]
    by (simp add: save_json_def w)
qed

text \<open>
  C2. \<^verbatim>\<open>get_channel_playlists_json\<close> saves the accumulated items under its key after
  every page, \<^verbatim>\<open>get_videos_json\<close> saves its items once, after the last page. So when
  the pages \<open>ps\<close> (each with a cursor) arrive and the next page request fails with
  \<open>e\<close>, \<^verbatim>\<open>get_videos_json\<close> raises \<open>e\<close> and leaves the world as it was but for the
  log of requests: its cache entry is still absent. Under the same conditions
  \<^verbatim>\<open>get_channel_playlists_json\<close> raises and leaves the items of the pages fetched so
  far saved under its key (nothing if the first request already failed). When all
  pages arrive, the last without cursor, both return all items and leave them saved.
\<close>

theorem C2_saved_after_every_page_or_once:
  "(load_json w (''playlist_'' @ pid @ ''_videos'') = None \<and>
    serves (remote w) (videos_request pid (api_key w)) (sent w) None ps \<and>
    list_all has_cursor ps \<and>
    page_of (remote w (sent w @ page_requests (videos_request pid (api_key w)) None ps)
               (videos_request pid (api_key w) (next_token None ps))) = Inl e
    \<longrightarrow> get_videos_json pid w =
          Some (Inl e,
                w\<lparr>sent := sent w @ page_requests (videos_request pid (api_key w)) None ps
                              @ [videos_request pid (api_key w) (next_token None ps)]\<rparr>))
   \<and>
   (load_json v (''channel_'' @ cid @ ''_playlists'') = None \<and>
    serves (remote v) (channel_playlists_request cid (api_key v)) (sent v) None qs \<and>
    list_all has_cursor qs \<and>
    page_of (remote v (sent v @ page_requests (channel_playlists_request cid (api_key v)) None qs)
               (channel_playlists_request cid (api_key v) (next_token None qs))) = Inl e'
    \<longrightarrow> get_channel_playlists_json cid v =
          Some (Inl e',
                v\<lparr>sent := sent v @ page_requests (channel_playlists_request cid (api_key v)) None qs
                              @ [channel_playlists_request cid (api_key v) (next_token None qs)],
                  cache := (if qs = [] then cache v
                            else (cache v)(''channel_'' @ cid @ ''_playlists'' \<mapsto>
                                             JArr (concat (map fst qs))))\<rparr>))
   \<and>
   (load_json x (''playlist_'' @ pid' @ ''_videos'') = None \<and>
    serves (remote x) (videos_request pid' (api_key x)) (sent x) None (rs @ [r]) \<and>
    list_all has_cursor rs \<and> \<not> has_cursor r
    \<longrightarrow> get_videos_json pid' x =
          Some (Inr (JArr (concat (map fst (rs @ [r])))),
                x\<lparr>sent := sent x @ page_requests (videos_request pid' (api_key x)) None (rs @ [r]),
                  cache := (cache x)(''playlist_'' @ pid' @ ''_videos'' \<mapsto>
                                       JArr (concat (map fst (rs @ [r]))))\<rparr>))
   \<and>
   (load_json y (''channel_'' @ cid' @ ''_playlists'') = None \<and>
    serves (remote y) (channel_playlists_request cid' (api_key y)) (sent y) None (ss @ [s]) \<and>
    list_all has_cursor ss \<and> \<not> has_cursor s
    \<longrightarrow> get_channel_playlists_json cid' y =
          Some (Inr (JArr (concat (map fst (ss @ [s])))),
                y\<lparr>sent := sent y @ page_requests (channel_playlists_request cid' (api_key y)) None
                                       (ss @ [s]),
                  cache := (cache y)(''channel_'' @ cid' @ ''_playlists'' \<mapsto>
                                       JArr (concat (map fst (ss @ [s]))))\<rparr>))"
proof (intro conjI impI; elim conjE)
  assume a: "load_json w (''playlist_'' @ pid @ ''_videos'') = None"
    "serves (remote w) (videos_request pid (api_key w)) (sent w) None ps"
    "list_all has_cursor ps"
    "page_of (remote w (sent w @ page_requests (videos_request pid (api_key w)) None ps)
               (videos_request pid (api_key w) (next_token None ps))) = Inl e"
  show "get_videos_json pid w =
          Some (Inl e,
                w\<lparr>sent := sent w @ page_requests (videos_request pid (api_key w)) None ps
                              @ [videos_request pid (api_key w) (next_token None ps)]\<rparr>)"
    using a(1) videos_loop_fails [OF a(2,3,4), of "[]"]
    by (simp add: get_videos_json_def)
next
  assume a: "load_json v (''channel_'' @ cid @ ''_playlists'') = None"
    "serves (remote v) (channel_playlists_request cid (api_key v)) (sent v) None qs"
    "list_all has_cursor qs"
    "page_of (remote v (sent v @ page_requests (channel_playlists_request cid (api_key v)) None qs)
               (channel_playlists_request cid (api_key v) (next_token None qs))) = Inl e'"
  show "get_channel_playlists_json cid v =
          Some (Inl e',
                v\<lparr>sent := sent v @ page_requests (channel_playlists_request cid (api_key v)) None qs
                              @ [channel_playlists_request cid (api_key v) (next_token None qs)],
                  cache := (if qs = [] then cache v
                            else (cache v)(''channel_'' @ cid @ ''_playlists'' \<mapsto>
                                             JArr (concat (map fst qs))))\<rparr>)"
    using a(1) channel_playlists_loop_fails [OF a(2,3,4), of "[]"]
    by (simp add: get_channel_playlists_json_def saved_pages_def save_json_def)
next
  assume a: "load_json x (''playlist_'' @ pid' @ ''_videos'') = None"
    "serves (remote x) (videos_request pid' (api_key x)) (sent x) None (rs @ [r])"
    "list_all has_cursor rs" "\<not> has_cursor r"
  show "get_videos_json pid' x =
          Some (Inr (JArr (concat (map fst (rs @ [r])))),
                x\<lparr>sent := sent x @ page_requests (videos_request pid' (api_key x)) None (rs @ [r]),
                  cache := (cache x)(''playlist_'' @ pid' @ ''_videos'' \<mapsto>
                                       JArr (concat (map fst (rs @ [r]))))\<rparr>)"
    using a(1) videos_loop_complete [OF a(2,3,4), of "[]"]
    by (simp add: get_videos_json_def save_json_def)
next
  assume a: "load_json y (''channel_'' @ cid' @ ''_playlists'') = None"
    "serves (remote y) (channel_playlists_request cid' (api_key y)) (sent y) None (ss @ [s])"
    "list_all has_cursor ss" "\<not> has_cursor s"
  show "get_channel_playlists_json cid' y =
          Some (Inr (JArr (concat (map fst (ss @ [s])))),
                y\<lparr>sent := sent y @ page_requests (channel_playlists_request cid' (api_key y)) None
                                       (ss @ [s]),
                  cache := (cache y)(''channel_'' @ cid' @ ''_playlists'' \<mapsto>
                                       JArr (concat (map fst (ss @ [s]))))\<rparr>)"
    using a(1) channel_playlists_loop_complete [OF a(2,3,4), of "[]"]
    by (simp add: get_channel_playlists_json_def save_json_def)
qed

theorem C2_witness:
  "serves (remote flaky_world) (videos_request ''P1'' (api_key flaky_world)) (sent flaky_world)
      None [([sample_resource ''P1''], Some (JStr ''p2''))]
   \<and> get_videos_json ''P1'' flaky_world =
       Some (Inl (HTTPError 500),
             flaky_world\<lparr>sent := [videos_request ''P1'' ''k'' None,
                                   videos_request ''P1'' ''k'' (Some (JStr ''p2''))]\<rparr>)
   \<and> serves (remote flaky_world) (channel_playlists_request ''UC1'' (api_key flaky_world))
        (sent flaky_world) None [([sample_resource ''P1''], Some (JStr ''p2''))]
   \<and> get_channel_playlists_json ''UC1'' flaky_world =
       Some (Inl (HTTPError 500),
             flaky_world\<lparr>sent := [channel_playlists_request ''UC1'' ''k'' None,
                                   channel_playlists_request ''UC1'' ''k'' (Some (JStr ''p2''))],
                         cache := [''channel_UC1_playlists'' \<mapsto> JArr [sample_resource ''P1'']]\<rparr>)
   \<and> get_videos_json ''P1'' sample_world =
       Some (Inr (JArr [sample_resource ''P1'', sample_resource ''P2'']),
             sample_world\<lparr>sent := [videos_request ''P1'' ''k'' None,
                                    videos_request ''P1'' ''k'' (Some (JStr ''p2''))],
                          cache := [''playlist_P1_videos'' \<mapsto>
                                      JArr [sample_resource ''P1'', sample_resource ''P2'']]\<rparr>)
   \<and> get_channel_playlists_json ''UC1'' sample_world =
       Some (Inr (JArr [sample_resource ''P1'']),
             sample_world\<lparr>sent := [channel_playlists_request ''UC1'' ''k'' None],
                          cache := [''channel_UC1_playlists'' \<mapsto> JArr [sample_resource ''P1'']]\<rparr>)"
proof -
  let ?ps = "[([sample_resource ''P1''], Some (JStr ''p2''))]"
  let ?r = "([sample_resource ''P2''], None :: json option)"
  let ?s = "([sample_resource ''P1''], None :: json option)"
  have w: "api_key flaky_world = ''k''" "sent flaky_world = []" "cache flaky_world = Map.empty"
    "remote flaky_world = flaky_remote"
    "api_key sample_world = ''k''" "sent sample_world = []" "cache sample_world = Map.empty"
    "remote sample_world = sample_remote"
    by (simp_all add: flaky_world_def sample_world_def)
  have v1: "load_json flaky_world (''playlist_'' @ ''P1'' @ ''_videos'') = None"
    and p1: "load_json flaky_world (''channel_'' @ ''UC1'' @ ''_playlists'') = None"
    and x1: "load_json sample_world (''playlist_'' @ ''P1'' @ ''_videos'') = None"
    and y1: "load_json sample_world (''channel_'' @ ''UC1'' @ ''_playlists'') = None"
    by (simp_all add: load_json_def w)
  have v2: "serves (remote flaky_world) (videos_request ''P1'' (api_key flaky_world))
      (sent flaky_world) None ?ps"
    and p2: "serves (remote flaky_world) (channel_playlists_request ''UC1'' (api_key flaky_world))
      (sent flaky_world) None ?ps"
    by (simp_all add: w flaky_remote_def videos_request_def channel_playlists_request_def page_defs)
  have x2: "serves (remote sample_world) (videos_request ''P1'' (api_key sample_world))
      (sent sample_world) None (?ps @ [?r])"
    and y2: "serves (remote sample_world) (channel_playlists_request ''UC1'' (api_key sample_world))
      (sent sample_world) None ([] @ [?s])"
    by (simp_all add: videos_request_def channel_playlists_request_def page_defs)
  have c: "list_all has_cursor ?ps" "\<not> has_cursor ?r" "\<not> has_cursor ?s" "list_all has_cursor []"
    by (simp_all add: has_cursor_def)
  have v4: "page_of (remote flaky_world
               (sent flaky_world @ page_requests (videos_request ''P1'' (api_key flaky_world)) None ?ps)
               (videos_request ''P1'' (api_key flaky_world) (next_token None ?ps))) =
            Inl (HTTPError 500)"
    and p4: "page_of (remote flaky_world
               (sent flaky_world @
                 page_requests (channel_playlists_request ''UC1'' (api_key flaky_world)) None ?ps)
               (channel_playlists_request ''UC1'' (api_key flaky_world) (next_token None ?ps))) =
            Inl (HTTPError 500)"
    by (simp_all add: w flaky_remote_def videos_request_def channel_playlists_request_def page_defs)
  show ?thesis
    using v1 v2 v4 p1 p2 p4 c x1 x2 y1 y2
      C2_saved_after_every_page_or_once
        [of flaky_world "''P1''" ?ps "HTTPError 500" flaky_world "''UC1''" ?ps "HTTPError 500"
            sample_world "''P1''" ?ps ?r sample_world "''UC1''" "[]" ?s]
    by (simp add: w)
qed

section \<open>Batch author resolver: chunks and requests\<close>

lemma ceil_div_step:
  fixes s n :: nat
  assumes "0 < s" "0 < n"
  shows "(n + s - 1) div s = Suc ((n - s + s - 1) div s)"
proof (cases "s \<le> n")
  case True
  have step: "(m + s) div s = Suc (m div s)" for m :: nat using assms(1) by (simp add: div_add_self2)
  from True assms have "n + s - 1 = (n - s + s - 1) + s" by simp
  then show ?thesis using step [of "n - s + s - 1"] by presburger
next
  case False
  then have a: "s \<le> n + s - 1" "n + s - 1 < s + s" using assms by simp_all
  then have "(n + s - 1) div s = 1"
    by (simp add: le_div_geq)
  moreover from False have "(n - s + s - 1) div s = 0" using assms by simp
  ultimately show ?thesis by simp
qed

lemma upt_0_Suc: "[0..<Suc k] = 0 # map Suc [0..<k]"
  by (simp add: upt_conv_Cons map_Suc_upt del: upt_Suc)

lemma py_range_rec:
  assumes "0 < s" "0 < n"
  shows "py_range n s = 0 # map (\<lambda>i. i + s) (py_range (n - s) s)"
  unfolding py_range_def ceil_div_step [OF assms] upt_0_Suc
  by (simp add: comp_def)

lemma py_range_0: "py_range 0 s = []"
  by (cases "s = 0") (simp_all add: py_range_def)

lemma slices_are_chunks:
  "0 < s \<Longrightarrow> map (\<lambda>iv. py_slice xs iv s) (py_range (length xs) s) = chunks_of s xs"
proof (induction s xs rule: chunks_of.induct)
  case (1 n xs)
  show ?case
  proof (cases "xs = []")
    case True
    then show ?thesis by (simp add: py_range_0 chunks_of.simps [of n "[]"])
  next
    case False
    with 1 have IH: "map (\<lambda>iv. py_slice (drop n xs) iv n) (py_range (length (drop n xs)) n) =
        chunks_of n (drop n xs)"
      by blast
    have "map (\<lambda>iv. py_slice xs iv n) (py_range (length xs) n) =
          py_slice xs 0 n # map (\<lambda>iv. py_slice xs (iv + n) n) (py_range (length xs - n) n)"
      using False "1.prems" by (simp add: py_range_rec comp_def)
    also have "map (\<lambda>iv. py_slice xs (iv + n) n) (py_range (length xs - n) n) =
          map (\<lambda>iv. py_slice (drop n xs) iv n) (py_range (length (drop n xs)) n)"
      by (simp add: py_slice_def add.commute)
    also have "py_slice xs 0 n = take n xs"
      by (simp add: py_slice_def)
    finally show ?thesis
      using False "1.prems" by (simp only: IH chunks_of.simps [of n xs]) simp
  qed
qed



lemma chunks_of_101:
  assumes "length xs = 101"
  shows "chunks_of 50 xs = [take 50 xs, take 50 (drop 50 xs), drop 100 xs]"
proof -
  have a: "xs \<noteq> []" "drop 50 xs \<noteq> []" "drop 100 xs \<noteq> []"
    using assms by auto
  have "chunks_of 50 (drop 50 (drop 100 xs)) = []"
    using assms by (simp add: chunks_of.simps [of 50 "[]"])
  moreover have "take 50 (drop 100 xs) = drop 100 xs" using assms by simp
  ultimately have "chunks_of 50 (drop 100 xs) = [drop 100 xs]"
    using a(3) by (simp add: chunks_of.simps [of 50 "drop 100 xs"])
  moreover have "drop 50 (drop 50 xs) = drop 100 xs" by simp
  ultimately have "chunks_of 50 (drop 50 xs) = [take 50 (drop 50 xs), drop 100 xs]"
    using a(2) by (simp only: chunks_of.simps [of 50 "drop 50 xs"]) simp
  then show ?thesis
    using a(1) by (simp only: chunks_of.simps [of 50 xs]) simp
qed

lemma authors_loop_fetch_chunks:
  "authors_loop ivs ids items w =
     (case fetch_chunks (map (\<lambda>iv. py_slice ids iv MAX_VIDEOS_PER_REQUEST) ivs) w of
        None \<Rightarrow> None
      | Some (Inl e, w1) \<Rightarrow> Some (Inl e, w1)
      | Some (Inr rs, w1) \<Rightarrow> Some (Inr (foldl dict_update items rs), w1))"
proof (induction ivs arbitrary: items w)
  case Nil
  show ?case by simp
next
  case (Cons iv ivs)
  show ?case
  proof (cases "retrieve_videos_for (py_slice ids iv MAX_VIDEOS_PER_REQUEST) w")
    case None
    then show ?thesis by simp
  next
    case (Some y)
    obtain r w1 where y: "y = (r, w1)" by (cases y)
    show ?thesis
    proof (cases r)
      case (Inl e)
      with Some y show ?thesis by simp
    next
      case (Inr req_items)
      with Some y show ?thesis
        by (simp add: Cons.IH split: option.split sum.split prod.split)
    qed
  qed
qed

lemma get_videos_authors_info_refines:
  "get_videos_authors_info ids w = resolveAuthors_spec ids w"
proof -
  have "map (\<lambda>iv. py_slice ids iv MAX_VIDEOS_PER_REQUEST)
          (py_range (length ids) MAX_VIDEOS_PER_REQUEST) = chunks_of 50 ids"
    using slices_are_chunks [of 50 ids] by (simp add: MAX_VIDEOS_PER_REQUEST_def)
  then show ?thesis
    by (simp add: get_videos_authors_info_def resolveAuthors_spec_def authors_loop_fetch_chunks
        split: option.split sum.split prod.split)
qed




lemma retrieve_videos_for_single:
  assumes "page_of (remote w (sent w) (authors_request c (api_key w) None)) = Inr (its, nxt)"
    and "py_not nxt" and "add_entries [] its = Inr r"
  shows "retrieve_videos_for c w =
         Some (Inr r, w\<lparr>sent := sent w @ [authors_request c (api_key w) None]\<rparr>)"
  unfolding retrieve_videos_for_def
  using assms
  by (subst retrieve_videos_loop.simps)
     (auto simp: get_json_eq page_of_def split: sum.splits)

lemma sample_retrieve:
  assumes "remote w = sample_remote"
  shows "retrieve_videos_for c w =
         Some (Inr sample_author, w\<lparr>sent := sent w @ [authors_request c (api_key w) None]\<rparr>)"
proof (rule retrieve_videos_for_single)
  show "page_of (remote w (sent w) (authors_request c (api_key w) None)) =
        Inr ([sample_resource ''P1''], None)"
    by (simp add: assms authors_request_def VIDEOS_API_def page_defs)
  show "py_not None" by simp
  show "add_entries [] [sample_resource ''P1''] = Inr sample_author"
    by (simp add: author_entry_def sample_resource_def sample_author_def)
qed

lemma sample_authors_101:
  "get_videos_authors_info (replicate 101 ''v'') sample_world =
     Some (Inr (JObj sample_author),
           sample_world\<lparr>sent := [authors_request (replicate 50 ''v'') ''k'' None,
                                  authors_request (replicate 50 ''v'') ''k'' None,
                                  authors_request [''v''] ''k'' None],
                        cache := [''videos_channels'' \<mapsto> JObj sample_author]\<rparr>)"
proof -
  have c: "chunks_of 50 (replicate 101 ''v'') = [replicate 50 ''v'', replicate 50 ''v'', [''v'']]"
    by (simp add: chunks_of_101)
  have w: "remote sample_world = sample_remote" "api_key sample_world = ''k''"
    "sent sample_world = []" "cache sample_world = Map.empty"
    by (simp_all add: sample_world_def)
  have m: "dict_update sample_author sample_author = sample_author"
    "dict_update [] sample_author = sample_author"
    by (simp_all add: dict_update_def sample_author_def)
  show ?thesis
    by (simp add: get_videos_authors_info_refines resolveAuthors_spec_def load_json_def
        save_json_def c w m sample_retrieve)
qed















text \<open>
  C6. The resolver's cache entry has the fixed key \<^verbatim>\<open>videos_channels\<close>, whatever the
  ids: when the entry is present, a call with any list of ids returns the cached
  mapping and leaves the world as it was, so no request is sent.
\<close>

theorem C6_authors_cache_ignores_ids:
  "load_json w ''videos_channels'' = Some m \<Longrightarrow>
   get_videos_authors_info ids w = Some (Inr m, w)"
  by (simp add: get_videos_authors_info_def)

theorem C6_witness:
  "get_videos_authors_info (replicate 101 ''v'') sample_world =
     Some (Inr (JObj sample_author),
           sample_world\<lparr>sent := [authors_request (replicate 50 ''v'') ''k'' None,
                                  authors_request (replicate 50 ''v'') ''k'' None,
                                  authors_request [''v''] ''k'' None],
                        cache := [''videos_channels'' \<mapsto> JObj sample_author]\<rparr>)
   \<and> get_videos_authors_info [''other'', ''ids'']
        (sample_world\<lparr>sent := [authors_request (replicate 50 ''v'') ''k'' None,
                                  authors_request (replicate 50 ''v'') ''k'' None,
                                  authors_request [''v''] ''k'' None],
                        cache := [''videos_channels'' \<mapsto> JObj sample_author]\<rparr>) =
     Some (Inr (JObj sample_author),
           sample_world\<lparr>sent := [authors_request (replicate 50 ''v'') ''k'' None,
                                  authors_request (replicate 50 ''v'') ''k'' None,
                                  authors_request [''v''] ''k'' None],
                        cache := [''videos_channels'' \<mapsto> JObj sample_author]\<rparr>)"
proof -
  let ?w = "sample_world\<lparr>sent := [authors_request (replicate 50 ''v'') ''k'' None,
                                  authors_request (replicate 50 ''v'') ''k'' None,
                                  authors_request [''v''] ''k'' None],
                        cache := [''videos_channels'' \<mapsto> JObj sample_author]\<rparr>"
  have hit: "load_json ?w ''videos_channels'' = Some (JObj sample_author)"
    by (simp add: load_json_def)
  show ?thesis
    using sample_authors_101 C6_authors_cache_ignores_ids [OF hit, of "[''other'', ''ids'']"]
    by simp
qed

section \<open>Collection resolver: the playlist set\<close>

lemma from_id_playlist_id: "from_id pid w = (Inr p, w') \<Longrightarrow> playlist_id p = pid"
  by (auto simp: from_id_def split: prod.splits sum.splits)

lemma from_ids_playlist_ids: "from_ids ids w = (Inr ps, w') \<Longrightarrow> map playlist_id ps = ids"
proof (induction ids arbitrary: w ps w')
  case Nil
  then show ?case by simp
next
  case (Cons pid ids)
  from Cons.prems obtain p w1 ps' where
    a: "from_id pid w = (Inr p, w1)" and b: "from_ids ids w1 = (Inr ps', w')" and c: "ps = p # ps'"
    by (auto split: prod.splits sum.splits)
  from from_id_playlist_id [OF a] Cons.IH [OF b] c show ?case by simp
qed

lemma hashable_strs_Inr: "hashable_strs js = Inr ss \<Longrightarrow> js = map JStr ss"
  by (induction js arbitrary: ss rule: hashable_strs.induct) (auto split: sum.splits)

lemma set_list_of_set: "set (list_of_set w xs) = set xs"
  by (simp add: list_of_set_def)

lemma distinct_list_of_set: "distinct (list_of_set w xs)"
  by (simp add: list_of_set_def)

lemma extract_playlist_ids:
  assumes "extract_playlists_details_from ct yid w = Some (Inr (pls, main, up), w')"
  shows "\<exists>ids w1. collect_ids ct yid w = Some (Inr (map JStr ids, main, up), w1) \<and>
           map playlist_id pls = list_of_set w1 ids"
proof -
  from assms obtain js w1 ids where
    c: "collect_ids ct yid w = Some (Inr (js, main, up), w1)"
    and h: "hashable_strs js = Inr ids"
    and f: "from_ids (list_of_set w1 ids) w1 = (Inr pls, w')"
    by (auto simp: extract_playlists_details_from_def split: option.splits prod.splits sum.splits)
  from hashable_strs_Inr [OF h] from_ids_playlist_ids [OF f] c show ?thesis by auto
qed

lemma collect_ids_channel:
  assumes "ct = USER \<or> ct = CHANNEL"
    and "collect_ids ct yid w = Some (Inr (js, main, up), w2)"
  shows "\<exists>channel_json w1 cd rp u.
           get_channel_json yid (ct = USER) w = (Inr channel_json, w1) \<and>
           py_getitem channel_json ''contentDetails'' = Inr cd \<and>
           py_getitem cd ''relatedPlaylists'' = Inr rp \<and>
           py_getitem rp ''uploads'' = Inr u \<and>
           up = Some u \<and> js \<noteq> [] \<and> last js = u"
  using assms
  by (auto simp: collect_ids_def split: prod.splits sum.splits json.splits option.splits)

lemma collect_ids_playlist:
  assumes "collect_ids PLAYLIST yid w = Some (Inr (js, main, up), w1)"
  shows "js = map JStr (py_split CHR '','' yid) \<and> up = None \<and>
         (\<exists>p. from_id (hd (py_split CHR '','' yid)) w = (Inr p, w1) \<and> main = creator_id p)"
  using assms
  by (auto simp: collect_ids_def PLAYLIST_def USER_def CHANNEL_def
           split: prod.splits sum.splits list.splits)

lemmas resolver_defs = extract_playlists_details_from_def collect_ids_def USER_def CHANNEL_def
  PLAYLIST_def get_channel_json_def get_playlist_json_def get_channel_playlists_json_def
  channel_playlists_loop_step from_id_def list_of_set_def get_json_eq
  channel_request_def playlist_request_def channel_playlists_request_def
  sample_playlist_of_def page_defs

lemma sample_extract_user:
  "map_option fst (extract_playlists_details_from USER ''acme'' sample_world) =
     Some (Inr ([sample_playlist_of ''P1'', sample_playlist_of ''PUp''],
                JStr ''P1'', Some (JStr ''PUp'')))"
  by (simp add: resolver_defs)

lemma sample_extract_playlists:
  "map_option fst (extract_playlists_details_from PLAYLIST ''A,B,A'' sample_world) =
     Some (Inr ([sample_playlist_of ''B'', sample_playlist_of ''A''], JStr ''UC1'', None))"
  by (simp add: resolver_defs)

text \<open>
  C7. Whenever \<^verbatim>\<open>extract_playlists_details_from\<close> succeeds on a User or Channel
  collection, the uploads playlist id it returns is the \<^verbatim>\<open>uploads\<close> entry of the
  channel's record, and a playlist with this \<open>playlist_id\<close> is among the returned
  playlists, whatever the channel-playlists listing returned.
\<close>

theorem C7_uploads_playlist_included:
  assumes "collection_type = USER \<or> collection_type = CHANNEL"
    and "extract_playlists_details_from collection_type youtube_id w =
           Some (Inr (playlists, main_channel_id, uploads_playlist_id), w')"
  shows "\<exists>channel_json w1 cd rp up.
           get_channel_json youtube_id (collection_type = USER) w = (Inr channel_json, w1) \<and>
           py_getitem channel_json ''contentDetails'' = Inr cd \<and>
           py_getitem cd ''relatedPlaylists'' = Inr rp \<and>
           py_getitem rp ''uploads'' = Inr (JStr up) \<and>
           uploads_playlist_id = Some (JStr up) \<and>
           up \<in> set (map playlist_id playlists)"
proof -
  from extract_playlist_ids [OF assms(2)] obtain ids w1 where
    c: "collect_ids collection_type youtube_id w =
          Some (Inr (map JStr ids, main_channel_id, uploads_playlist_id), w1)"
    and p: "map playlist_id playlists = list_of_set w1 ids"
    by blast
  from collect_ids_channel [OF assms(1) c] obtain channel_json w0 cd rp u where
    g: "get_channel_json youtube_id (collection_type = USER) w = (Inr channel_json, w0)"
       "py_getitem channel_json ''contentDetails'' = Inr cd"
       "py_getitem cd ''relatedPlaylists'' = Inr rp"
       "py_getitem rp ''uploads'' = Inr u"
    and u: "uploads_playlist_id = Some u" "map JStr ids \<noteq> []" "last (map JStr ids) = u"
    by blast
  from u have "ids \<noteq> []" and "u = JStr (last ids)" by (simp_all add: last_map)
  moreover from \<open>ids \<noteq> []\<close> have "last ids \<in> set (map playlist_id playlists)"
    by (simp add: p set_list_of_set)
  ultimately show ?thesis using g u by blast
qed

theorem C7_witness:
  "(USER = USER \<or> USER = CHANNEL)
   \<and> map_option fst (extract_playlists_details_from USER ''acme'' sample_world) =
       Some (Inr ([sample_playlist_of ''P1'', sample_playlist_of ''PUp''],
                  JStr ''P1'', Some (JStr ''PUp'')))
   \<and> ''PUp'' \<in> set (map playlist_id [sample_playlist_of ''P1'', sample_playlist_of ''PUp''])"
proof -
  from sample_extract_user obtain w' where
    run: "extract_playlists_details_from USER ''acme'' sample_world =
            Some (Inr ([sample_playlist_of ''P1'', sample_playlist_of ''PUp''],
                       JStr ''P1'', Some (JStr ''PUp'')), w')"
    by (cases "extract_playlists_details_from USER ''acme'' sample_world") auto
  have ct: "USER = USER \<or> USER = CHANNEL" by simp
  from C7_uploads_playlist_included [OF ct run]
  have "''PUp'' \<in> set (map playlist_id [sample_playlist_of ''P1'', sample_playlist_of ''PUp''])"
    by auto
  with ct sample_extract_user show ?thesis by simp
qed

text \<open>
  C8. Whenever \<^verbatim>\<open>extract_playlists_details_from\<close> succeeds on a Playlist collection,
  the returned playlists have pairwise distinct \<open>playlist_id\<close>s, the set of these ids
  is the set of the comma-separated ids of the identifier, there are as many playlists
  as distinct ids, and no uploads playlist is returned. The identifier "A,B,A" yields
  exactly 2 playlists.
\<close>

theorem C8_playlist_ids_deduplicated:
  assumes "extract_playlists_details_from PLAYLIST youtube_id w =
             Some (Inr (playlists, main_channel_id, uploads_playlist_id), w')"
  shows "distinct (map playlist_id playlists)
       \<and> set (map playlist_id playlists) = set (py_split CHR '','' youtube_id)
       \<and> length playlists = card (set (py_split CHR '','' youtube_id))
       \<and> uploads_playlist_id = None
       \<and> (youtube_id = ''A,B,A'' \<longrightarrow> length playlists = 2)"
proof -
  from extract_playlist_ids [OF assms] obtain ids w1 where
    c: "collect_ids PLAYLIST youtube_id w =
          Some (Inr (map JStr ids, main_channel_id, uploads_playlist_id), w1)"
    and p: "map playlist_id playlists = list_of_set w1 ids"
    by blast
  from collect_ids_playlist [OF c] have "map JStr ids = map JStr (py_split CHR '','' youtube_id)"
    and up: "uploads_playlist_id = None" by simp_all
  then have ids: "ids = py_split CHR '','' youtube_id"
    by (simp add: inj_on_def map_eq_conv [symmetric] inj_map_eq_map)
  have d: "distinct (map playlist_id playlists)"
    by (simp add: p distinct_list_of_set)
  have s: "set (map playlist_id playlists) = set (py_split CHR '','' youtube_id)"
    by (simp only: p set_list_of_set ids)
  have "length playlists = length (map playlist_id playlists)" by simp
  also have "\<dots> = card (set (map playlist_id playlists))"
    using d by (simp only: distinct_card)
  finally have l: "length playlists = card (set (py_split CHR '','' youtube_id))"
    by (simp only: s)
  have "card (set (py_split CHR '','' ''A,B,A'')) = 2" by (subst card_set) simp
  with d s l up show ?thesis by simp
qed

theorem C8_witness:
  "map_option fst (extract_playlists_details_from PLAYLIST ''A,B,A'' sample_world) =
     Some (Inr ([sample_playlist_of ''B'', sample_playlist_of ''A''], JStr ''UC1'', None))
   \<and> distinct (map playlist_id [sample_playlist_of ''B'', sample_playlist_of ''A''])
   \<and> set (map playlist_id [sample_playlist_of ''B'', sample_playlist_of ''A'']) =
       set (py_split CHR '','' ''A,B,A'')
   \<and> length [sample_playlist_of ''B'', sample_playlist_of ''A''] = 2"
proof -
  from sample_extract_playlists obtain w' where
    run: "extract_playlists_details_from PLAYLIST ''A,B,A'' sample_world =
            Some (Inr ([sample_playlist_of ''B'', sample_playlist_of ''A''], JStr ''UC1'', None), w')"
    by (cases "extract_playlists_details_from PLAYLIST ''A,B,A'' sample_world") auto
  from C8_playlist_ids_deduplicated [OF run] sample_extract_playlists
  show ?thesis by simp
qed

section \<open>Branding assets: the profile image\<close>



















section \<open>Deleted videos\<close>

lemma skip_deleted_videos_eq:
  assumes "py_getitem item ''snippet'' = Inr sn"
    and "py_getitem sn ''title'' = Inr t"
    and "py_getitem sn ''description'' = Inr d"
  shows "skip_deleted_videos item =
         Inr (t \<noteq> JStr ''Deleted video'' \<and> d \<noteq> JStr ''This video is unavailable.'')"
  using assms by (simp add: skip_deleted_videos_def)

text \<open>
  C3, as the code has it. For every video item with a title and a description, the
  item is classified as deleted (the filter drops it) exactly when its title is
  exactly "Deleted video" or its description is exactly "This video is unavailable.":
  one matching sentinel is enough.
\<close>

theorem C3_deleted_iff_either_sentinel:
  assumes "py_getitem item ''snippet'' = Inr sn"
    and "py_getitem sn ''title'' = Inr t"
    and "py_getitem sn ''description'' = Inr d"
  shows "isDeleted item \<longleftrightarrow>
         (t = JStr ''Deleted video'' \<or> d = JStr ''This video is unavailable.'')"
  using skip_deleted_videos_eq [OF assms] by (auto simp: isDeleted_def)

theorem C3_witness:
  "py_getitem (JObj [(''snippet'', JObj [(''title'', JStr ''Lecture 1''),
                       (''description'', JStr ''This video is unavailable.'')])]) ''snippet'' =
     Inr (JObj [(''title'', JStr ''Lecture 1''),
                (''description'', JStr ''This video is unavailable.'')])
   \<and> isDeleted (JObj [(''snippet'', JObj [(''title'', JStr ''Lecture 1''),
                       (''description'', JStr ''This video is unavailable.'')])])"
  using C3_deleted_iff_either_sentinel
    [of "JObj [(''snippet'', JObj [(''title'', JStr ''Lecture 1''),
                 (''description'', JStr ''This video is unavailable.'')])]"
        "JObj [(''title'', JStr ''Lecture 1''),
               (''description'', JStr ''This video is unavailable.'')]"
        "JStr ''Lecture 1''" "JStr ''This video is unavailable.''"]
  by simp

text \<open>
  C3 as stated fails: an item titled "Deleted video" whose description is not the
  unavailable-notice matches one sentinel only, and is classified as deleted.
\<close>

theorem C3_counterexample:
  "isDeleted (JObj [(''snippet'', JObj [(''title'', JStr ''Deleted video''),
                                        (''description'', JStr ''Private upload'')])])
   \<and> \<not> (JStr ''Deleted video'' = JStr ''Deleted video''
         \<and> JStr ''Private upload'' = JStr ''This video is unavailable.'')"
  by (simp add: isDeleted_def skip_deleted_videos_def)

end
